theory Spec2Isabelle
  imports Complex_Main "HOL-Library.Char_ord" "HOL-Library.List_Lexorder" "HOL-Library.Multiset"
    "HOL-Library.Log_Nat"
begin

section \<open>Python values shared by the notebooks\<close>

text \<open>
  The notebooks run Python cells over small literal tables. Exceptions are values of
  \<open>py_error\<close>; a computation that may raise returns \<open>py_error + 'a\<close>. A missing entry of
  a pandas column (\<open>np.nan\<close>) is \<open>None\<close>. Floating-point numbers are modelled by exact
  rationals (reals for sine and cosine): rounding is not part of the model.
\<close>

datatype py_error = NameError string | KeyError | ValueError | TypeError | AttributeError | ZeroDivisionError

section \<open>numeric\_scaling.ipynb\<close>

text \<open>
  The three code cells of the notebook build an integer array with \<open>np.array\<close> and pass
  it to \<open>fit_transform\<close> of a scaler. An array is the list of its rows.
\<close>

definition data_minmax :: "int list list" where
  "data_minmax = [[10, 1000], [15, 1500], [20, 2000], [25, 2500], [30, 3000]]"

text \<open>The third cell's array has an outlier in the first column.\<close>

definition data_robust :: "int list list" where
  "data_robust = [[10, 1000], [15, 1500], [20, 2000], [25, 2500], [1000, 3000]]"

definition column :: "nat \<Rightarrow> 'a list list \<Rightarrow> 'a list" where
  "column j X = map (\<lambda>r. r ! j) X"

definition n_features :: "'a list list \<Rightarrow> nat" where
  "n_features X = length (hd X)"

definition columns_of :: "'a list list \<Rightarrow> 'a list list" where
  "columns_of X = map (\<lambda>j. column j X) [0..<n_features X]"

text \<open>
  The library's input validation: a 2-D array with at least one sample and one feature
  (anything else raises \<open>ValueError\<close>).
\<close>

definition check_array :: "'a list list \<Rightarrow> bool" where
  "check_array X = (X \<noteq> [] \<and> hd X \<noteq> [] \<and> list_all (\<lambda>r. length r = n_features X) X)"

definition float_eps :: rat where
  "float_eps = 1 / 2 ^ 52"

text \<open>
  Modelled from the spec: \<open>_handle_zeros_in_scale\<close> of the external library is not in the
  repository. A (near-)constant column, whose scale is below ten machine epsilons, is
  scaled by 1 instead.
\<close>

definition handle_zeros_in_scale :: "rat \<Rightarrow> rat" where
  "handle_zeros_in_scale s = (if s < 10 * float_eps then 1 else s)"

definition col_min :: "int list \<Rightarrow> int" where
  "col_min xs = fold min (tl xs) (hd xs)"

definition col_max :: "int list \<Rightarrow> int" where
  "col_max xs = fold max (tl xs) (hd xs)"

record minmax_scaler =
  mm_scale :: "rat list"
  mm_min :: "rat list"

text \<open>
  Modelled from the spec: \<open>MinMaxScaler\<close> of the external library is not in the
  repository; the notebook gives its formula \<open>X' = (X - X_min) / (X_max - X_min)\<close> and the
  printed result. The model follows the library's two steps with the default feature
  range (0, 1): \<open>fit\<close> stores per column \<open>scale_ = 1 / (max - min)\<close> and
  \<open>min_ = 0 - min * scale_\<close>, \<open>transform\<close> computes \<open>X * scale_ + min_\<close>.
\<close>

definition minmax_fit :: "int list list \<Rightarrow> minmax_scaler" where
  "minmax_fit X =
     (let cols = columns_of X;
          data_range = map (\<lambda>c. of_int (col_max c - col_min c)) cols;
          scale = map (\<lambda>r. 1 / handle_zeros_in_scale r) data_range;
          offs = map (\<lambda>(c, s). 0 - of_int (col_min c) * s) (zip cols scale)
      in \<lparr>mm_scale = scale, mm_min = offs\<rparr>)"

definition minmax_transform :: "minmax_scaler \<Rightarrow> int list list \<Rightarrow> rat list list" where
  "minmax_transform sc X =
     map (\<lambda>r. map (\<lambda>(x, s, m). of_int x * s + m) (zip r (zip (mm_scale sc) (mm_min sc)))) X"

definition minmax_fit_transform :: "int list list \<Rightarrow> py_error + rat list list" where
  "minmax_fit_transform X =
     (if check_array X then Inr (minmax_transform (minmax_fit X) X) else Inl ValueError)"

text \<open>
  Modelled from the spec: \<open>StandardScaler\<close> of the external library is not in the
  repository; the notebook gives its formula \<open>X' = (X - \<mu>) / \<sigma>\<close>, with the mean and the
  (population) standard deviation of the column. A column of zero variance is scaled by
  1. The result is real: the standard deviation is a square root.
\<close>

definition standard_column :: "int list \<Rightarrow> real list" where
  "standard_column xs =
     (let n = real (length xs);
          mean = (\<Sum>x\<leftarrow>xs. real_of_int x) / n;
          var = (\<Sum>x\<leftarrow>xs. (real_of_int x - mean)\<^sup>2) / n;
          scale = (if var = 0 then 1 else sqrt var)
      in map (\<lambda>x. (real_of_int x - mean) / scale) xs)"

definition standard_fit_transform :: "int list list \<Rightarrow> py_error + real list list" where
  "standard_fit_transform X =
     (if check_array X
      then Inr (map (\<lambda>i. map (\<lambda>c. standard_column c ! i) (columns_of X)) [0..<length X])
      else Inl ValueError)"

text \<open>
  Modelled from the spec: \<open>np.nanmedian\<close> and \<open>np.nanpercentile\<close> (used by the external
  \<open>RobustScaler\<close>) are not in the repository. The median is the middle element of the
  sorted column, or the mean of the two middle ones; a percentile is read at the
  position \<open>q / 100 * (n - 1)\<close> of the sorted column, interpolating linearly between
  the two neighbouring elements.
\<close>

definition np_median :: "int list \<Rightarrow> rat" where
  "np_median xs =
     (let s = sort xs; n = length s
      in if odd n then of_int (s ! (n div 2))
         else (of_int (s ! (n div 2 - 1)) + of_int (s ! (n div 2))) / 2)"

definition np_percentile :: "int list \<Rightarrow> rat \<Rightarrow> rat" where
  "np_percentile xs q =
     (let s = sort xs; n = length s;
          pos = q / 100 * of_nat (n - 1);
          lo = nat \<lfloor>pos\<rfloor>;
          hi = min (lo + 1) (n - 1);
          g = pos - of_nat lo
      in of_int (s ! lo) + g * of_int (s ! hi - s ! lo))"

definition iqr :: "int list \<Rightarrow> rat" where
  "iqr xs = np_percentile xs 75 - np_percentile xs 25"

record robust_scaler =
  rb_center :: "rat list"
  rb_scale :: "rat list"

text \<open>
  Modelled from the spec: \<open>RobustScaler\<close> of the external library is not in the
  repository; the notebook gives its formula \<open>X' = (X - median(X)) / IQR(X)\<close> and the
  printed result. \<open>fit\<close> stores per column the median and the interquartile range
  (quantile range (25, 75)), \<open>transform\<close> subtracts the first and divides by the second.
\<close>

definition robust_fit :: "int list list \<Rightarrow> robust_scaler" where
  "robust_fit X =
     (let cols = columns_of X
      in \<lparr>rb_center = map np_median cols,
          rb_scale = map (\<lambda>c. handle_zeros_in_scale (iqr c)) cols\<rparr>)"

definition robust_transform :: "robust_scaler \<Rightarrow> int list list \<Rightarrow> rat list list" where
  "robust_transform sc X =
     map (\<lambda>r. map (\<lambda>(x, c, s). (of_int x - c) / s) (zip r (zip (rb_center sc) (rb_scale sc)))) X"

definition robust_fit_transform :: "int list list \<Rightarrow> py_error + rat list list" where
  "robust_fit_transform X =
     (if check_array X then Inr (robust_transform (robust_fit X) X) else Inl ValueError)"



section \<open>pandas tables\<close>

text \<open>
  A column (a pandas \<open>Series\<close>) is the list of its entries in row order, \<open>None\<close> for a
  missing one (\<open>np.nan\<close>). A numeric column (dtype \<open>int64\<close> or \<open>float64\<close>) holds
  rationals, an \<open>object\<close> column holds strings, a \<open>bool\<close> column holds truth values and
  has no missing entries. The columns of a \<open>DataFrame\<close> are the list of its named
  columns, in order; all columns of a table have the same length. The row labels (the
  index) are kept with the table, see the kernel's values below: a column taken from a
  table, and what \<open>fillna\<close> and \<open>map\<close> make of it, has the labels of that table.
\<close>

datatype col = NumCol "rat option list" | StrCol "string option list" | BoolCol "bool list"

type_synonym dataframe = "(string \<times> col) list"

datatype cellval = Num rat | Str string | Bool bool

fun col_values :: "col \<Rightarrow> cellval option list" where
  "col_values (NumCol xs) = map (map_option Num) xs"
| "col_values (StrCol xs) = map (map_option Str) xs"
| "col_values (BoolCol bs) = map (\<lambda>b. Some (Bool b)) bs"

definition col_len :: "col \<Rightarrow> nat" where
  "col_len c = length (col_values c)"

text \<open>The entry of a table at column \<open>c\<close> and row \<open>i\<close>, \<open>None\<close> when missing or absent.\<close>

definition entry :: "dataframe \<Rightarrow> string \<Rightarrow> nat \<Rightarrow> cellval option" where
  "entry df c i =
     (case map_of df c of
        None \<Rightarrow> None
      | Some x \<Rightarrow> if i < col_len x then col_values x ! i else None)"

text \<open>\<open>df[c]\<close> raises \<open>KeyError\<close> for an unknown column.\<close>

definition getitem :: "(string \<times> 'a) list \<Rightarrow> string \<Rightarrow> py_error + 'a" where
  "getitem df c = (case map_of df c of None \<Rightarrow> Inl KeyError | Some x \<Rightarrow> Inr x)"

text \<open>\<open>df[c] = x\<close> replaces the column where it stands, or appends a new one.\<close>

fun setitem :: "(string \<times> 'a) list \<Rightarrow> string \<Rightarrow> 'a \<Rightarrow> (string \<times> 'a) list" where
  "setitem [] c x = [(c, x)]"
| "setitem ((k, v) # df) c x = (if k = c then (c, x) # df else (k, v) # setitem df c x)"

fun dropna_values :: "'a option list \<Rightarrow> 'a list" where
  "dropna_values [] = []"
| "dropna_values (None # xs) = dropna_values xs"
| "dropna_values (Some x # xs) = x # dropna_values xs"

text \<open>The distinct non-missing values of a column, sorted (group keys, dummy columns).\<close>

definition categories :: "('a::linorder) option list \<Rightarrow> 'a list" where
  "categories xs = sort (remdups (dropna_values xs))"

text \<open>\<open>Series.mean()\<close> skips missing entries and is NaN when none is left.\<close>

definition series_mean :: "rat option list \<Rightarrow> rat option" where
  "series_mean xs =
     (let vs = dropna_values xs
      in if vs = [] then None else Some (sum_list vs / of_nat (length vs)))"

text \<open>
  \<open>df.groupby(k)[v].mean()\<close>: one row per distinct non-missing key, in sorted order,
  holding the mean of the values of the rows of that key.
\<close>

definition group_values :: "'k option list \<Rightarrow> 'v list \<Rightarrow> 'k \<Rightarrow> 'v list" where
  "group_values keys vals k = map snd (filter (\<lambda>(k', v). k' = Some k) (zip keys vals))"

definition groupby_mean :: "('k::linorder) option list \<Rightarrow> rat option list \<Rightarrow> ('k \<times> rat option) list" where
  "groupby_mean keys vals = map (\<lambda>k. (k, series_mean (group_values keys vals k))) (categories keys)"

text \<open>
  \<open>Series.map(m)\<close> with a labelled series \<open>m\<close>: each entry is looked up in \<open>m\<close>; a
  missing entry or an unknown label gives a missing entry.
\<close>

definition map_series :: "'k option list \<Rightarrow> ('k \<times> 'v option) list \<Rightarrow> 'v option list" where
  "map_series keys m =
     map (\<lambda>k. case k of None \<Rightarrow> None
                | Some k' \<Rightarrow> (case map_of m k' of None \<Rightarrow> None | Some v \<Rightarrow> v)) keys"

text \<open>
  \<open>Series.value_counts()\<close>: the number of occurrences of each non-missing value, the
  most frequent first (values of equal count in the order of their first occurrence).
\<close>

definition value_counts :: "'a option list \<Rightarrow> ('a \<times> nat) list" where
  "value_counts xs =
     sort_key (\<lambda>(v, n). - int n)
       (map (\<lambda>v. (v, count_list xs (Some v))) (rev (remdups (rev (dropna_values xs)))))"

text \<open>\<open>Series.mode()\<close>: the most frequent non-missing values, sorted; empty if none.\<close>

definition mode :: "('a::linorder) option list \<Rightarrow> 'a list" where
  "mode xs =
     (let cs = categories xs;
          top = fold max (map (\<lambda>c. count_list xs (Some c)) cs) 0
      in filter (\<lambda>c. count_list xs (Some c) = top) cs)"

text \<open>\<open>s[0]\<close> on a series with the default index: \<open>KeyError\<close> when the series is empty.\<close>

definition first_item :: "'a list \<Rightarrow> py_error + 'a" where
  "first_item xs = (case xs of [] \<Rightarrow> Inl KeyError | x # _ \<Rightarrow> Inr x)"

text \<open>\<open>Series.fillna(v)\<close>: \<open>v\<close> in place of each missing entry (\<open>v\<close> may itself be NaN).\<close>

definition fillna :: "'a option list \<Rightarrow> 'a option \<Rightarrow> 'a option list" where
  "fillna xs v = map (\<lambda>x. case x of None \<Rightarrow> v | Some y \<Rightarrow> Some y) xs"

text \<open>
  Modelled from the spec: \<open>pd.get_dummies\<close> of the external library is not in the
  repository. One boolean column per distinct non-missing value, in sorted order; the
  column of \<open>c\<close> is True exactly in the rows whose entry is \<open>c\<close>.
\<close>

definition get_dummies :: "string option list \<Rightarrow> dataframe" where
  "get_dummies xs = map (\<lambda>c. (c, BoolCol (map (\<lambda>x. x = Some c) xs))) (categories xs)"

text \<open>Row \<open>i\<close> of a table, as the list of its entries in column order.\<close>

definition frame_row :: "dataframe \<Rightarrow> nat \<Rightarrow> cellval option list" where
  "frame_row df i = map (\<lambda>(c, x). col_values x ! i) df"

definition count_value :: "cellval \<Rightarrow> cellval option list \<Rightarrow> nat" where
  "count_value v xs = length (filter (\<lambda>x. x = Some v) xs)"

definition well_formed :: "dataframe \<Rightarrow> bool" where
  "well_formed df =
     (distinct (map fst df) \<and> list_all (\<lambda>(c, x). col_len x = col_len (snd (hd df))) df)"

definition n_rows :: "dataframe \<Rightarrow> nat" where
  "n_rows df = (case df of [] \<Rightarrow> 0 | (c, x) # _ \<Rightarrow> col_len x)"

text \<open>A numeric reading of a column, as \<open>mean\<close> needs it: \<open>TypeError\<close> on strings.\<close>

fun numeric_values :: "col \<Rightarrow> py_error + rat option list" where
  "numeric_values (NumCol xs) = Inr xs"
| "numeric_values (BoolCol bs) = Inr (map (\<lambda>b. Some (if b then 1 else 0)) bs)"
| "numeric_values (StrCol xs) = Inl TypeError"

definition bind_e :: "py_error + 'a \<Rightarrow> ('a \<Rightarrow> py_error + 'b) \<Rightarrow> py_error + 'b" where
  "bind_e m f = (case m of Inl e \<Rightarrow> Inl e | Inr v \<Rightarrow> f v)"

text \<open>The group means of a key column, the keys as table entries.\<close>

fun group_means_col :: "col \<Rightarrow> rat option list \<Rightarrow> (cellval \<times> rat option) list" where
  "group_means_col (StrCol ks) vs = map (\<lambda>(k, m). (Str k, m)) (groupby_mean ks vs)"
| "group_means_col (NumCol ks) vs = map (\<lambda>(k, m). (Num k, m)) (groupby_mean ks vs)"
| "group_means_col (BoolCol ks) vs = map (\<lambda>(k, m). (Bool k, m)) (groupby_mean (map Some ks) vs)"

fun value_counts_col :: "col \<Rightarrow> (cellval \<times> nat) list" where
  "value_counts_col (StrCol ks) = map (\<lambda>(k, n). (Str k, n)) (value_counts ks)"
| "value_counts_col (NumCol ks) = map (\<lambda>(k, n). (Num k, n)) (value_counts ks)"
| "value_counts_col (BoolCol ks) = map (\<lambda>(k, n). (Bool k, n)) (value_counts (map Some ks))"

text \<open>\<open>s.fillna(s.mode()[0])\<close> on a column of any type.\<close>

fun fill_with_mode :: "col \<Rightarrow> py_error + col" where
  "fill_with_mode (StrCol xs) = bind_e (first_item (mode xs)) (\<lambda>m. Inr (StrCol (fillna xs (Some m))))"
| "fill_with_mode (NumCol xs) = bind_e (first_item (mode xs)) (\<lambda>m. Inr (NumCol (fillna xs (Some m))))"
| "fill_with_mode (BoolCol bs) = bind_e (first_item (mode (map Some bs))) (\<lambda>m. Inr (BoolCol bs))"

text \<open>\<open>s.fillna(s.mean())\<close>: only a numeric column has a mean to fill with.\<close>

fun fill_with_mean :: "col \<Rightarrow> py_error + col" where
  "fill_with_mean (NumCol xs) = Inr (NumCol (fillna xs (series_mean xs)))"
| "fill_with_mean (BoolCol bs) = Inr (BoolCol bs)"
| "fill_with_mean (StrCol xs) = Inl TypeError"



text \<open>
  The table of the date-time notebook has other columns: timestamps, the integer
  fields read from them, and real-valued sines and cosines.
\<close>

record timestamp =
  ts_year :: int
  ts_month :: int
  ts_day :: int
  ts_hour :: int
  ts_minute :: int
  ts_second :: int

datatype tcol = TimeCol "timestamp list" | IntCol "int list" | RealCol "real list"

type_synonym time_frame = "(string \<times> tcol) list"

section \<open>Label and ordinal encoders\<close>

fun index_of :: "'a \<Rightarrow> 'a list \<Rightarrow> nat option" where
  "index_of x [] = None"
| "index_of x (y # ys) = (if x = y then Some 0 else map_option Suc (index_of x ys))"

text \<open>
  Modelled from the spec: \<open>LabelEncoder\<close> of the external library is not in the
  repository. The classes are the sorted distinct labels; a label is encoded by its
  position among them.
\<close>

definition label_fit_transform :: "string list \<Rightarrow> int list" where
  "label_fit_transform xs = map (\<lambda>x. int (the (index_of x (sort (remdups xs))))) xs"

text \<open>
  Modelled from the spec: \<open>OrdinalEncoder\<close> of the external library is not in the
  repository. With the categories of each feature given, a value is encoded by its
  position in the list of its feature; fitting raises \<open>ValueError\<close> on a value that is
  not listed or on a row of another width.
\<close>

definition ordinal_row :: "string list list \<Rightarrow> string list \<Rightarrow> rat list option" where
  "ordinal_row cats r =
     (if length r \<noteq> length cats then None
      else those (map (\<lambda>(x, cs). map_option rat_of_nat (index_of x cs)) (zip r cats)))"

definition ordinal_fit_transform :: "string list list \<Rightarrow> string list list \<Rightarrow> py_error + rat list list" where
  "ordinal_fit_transform cats X =
     (case those (map (ordinal_row cats) X) of None \<Rightarrow> Inl ValueError | Some Y \<Rightarrow> Inr Y)"


section \<open>The notebook kernel\<close>

text \<open>
  The cells of one notebook run in one kernel: a name bound by a cell stays bound for
  the cells run after it. The kernel's namespace maps names to values. A statement
  either raises, leaving the namespace as it was, or returns what it printed and the
  new namespace. A code cell is a sequence of statements; it returns the exception it
  raised (if any), what it printed, and the namespace it leaves: when a statement
  raises, the cell stops and the bindings made so far remain.
\<close>

datatype estimator =
    LabelEncoder
  | OrdinalEncoder "string list list"
  | MinMaxScaler
  | StandardScaler
  | RobustScaler
  | KNNImputer nat

datatype pyval =
    Imported string
  | Estimator estimator
  | StrList "string list"
  | IntList "int list"
  | StrRows "string list list"
  | IntArray "int list list"
  | Array "rat list list"
  | RealArray "real list list"
  | Dict dataframe
  | Frame "int list" dataframe
  | TimeFrame time_frame
  | LabelledMeans "(cellval \<times> rat option) list"
  | LabelledCounts "(cellval \<times> nat) list"
  | NullCounts "(string \<times> nat) list"
  | ColumnIndex "string list"
  | Figure dataframe

type_synonym namespace = "string \<rightharpoonup> pyval"

type_synonym stmt = "namespace \<Rightarrow> py_error + (pyval list \<times> namespace)"

type_synonym cell_result = "py_error option \<times> pyval list \<times> namespace"

type_synonym cell = "namespace \<Rightarrow> cell_result"

fun run_stmts :: "stmt list \<Rightarrow> cell" where
  "run_stmts [] ns = (None, [], ns)"
| "run_stmts (s # ss) ns =
     (case s ns of
        Inl e \<Rightarrow> (Some e, [], ns)
      | Inr (out, ns') \<Rightarrow>
          (case run_stmts ss ns' of (e, out', ns'') \<Rightarrow> (e, out @ out', ns'')))"

definition raised :: "cell_result \<Rightarrow> py_error option" where
  "raised r = fst r"

definition printed :: "cell_result \<Rightarrow> pyval list" where
  "printed r = fst (snd r)"

definition bindings :: "cell_result \<Rightarrow> namespace" where
  "bindings r = snd (snd r)"

text \<open>Reading a name: \<open>NameError\<close> when no cell run so far has bound it.\<close>

definition lookup :: "namespace \<Rightarrow> string \<Rightarrow> py_error + pyval" where
  "lookup ns x = (case ns x of None \<Rightarrow> Inl (NameError x) | Some v \<Rightarrow> Inr v)"

text \<open>
  A table \<open>Frame idx df\<close> has the row labels \<open>idx\<close> (its index, here integers) and the
  columns \<open>df\<close>. \<open>pd.DataFrame(d)\<close> of a dictionary of lists \<open>d\<close> (\<open>Dict d\<close>) labels the
  rows \<open>0, ..., n - 1\<close>.
\<close>

definition range_index :: "nat \<Rightarrow> int list" where
  "range_index n = map int [0..<n]"

definition data_frame :: "dataframe \<Rightarrow> pyval" where
  "data_frame d = Frame (range_index (n_rows d)) d"

text \<open>A value used as a table (\<open>df[...]\<close>, \<open>df.groupby\<close>, ...): anything else has no such
  columns or methods. \<open>as_frame\<close> reads the columns, \<open>as_table\<close> the labels as well.\<close>

definition as_frame :: "pyval \<Rightarrow> py_error + dataframe" where
  "as_frame v = (case v of Frame idx df \<Rightarrow> Inr df | _ \<Rightarrow> Inl AttributeError)"

definition lookup_frame :: "namespace \<Rightarrow> string \<Rightarrow> py_error + dataframe" where
  "lookup_frame ns x = bind_e (lookup ns x) as_frame"

definition as_table :: "pyval \<Rightarrow> py_error + int list \<times> dataframe" where
  "as_table v = (case v of Frame idx df \<Rightarrow> Inr (idx, df) | _ \<Rightarrow> Inl AttributeError)"

definition lookup_table :: "namespace \<Rightarrow> string \<Rightarrow> py_error + int list \<times> dataframe" where
  "lookup_table ns x = bind_e (lookup ns x) as_table"

text \<open>\<open>x = v\<close> for a literal or freshly constructed \<open>v\<close>, and \<open>import\<close>.\<close>

definition assign :: "string \<Rightarrow> pyval \<Rightarrow> stmt" where
  "assign x v ns = Inr ([], ns(x \<mapsto> v))"

text \<open>\<open>x = e\<close> where the expression \<open>e\<close> reads the namespace and may raise.\<close>

definition assign_expr :: "string \<Rightarrow> (namespace \<Rightarrow> py_error + pyval) \<Rightarrow> stmt" where
  "assign_expr x e ns = bind_e (e ns) (\<lambda>v. Inr ([], ns(x \<mapsto> v)))"

text \<open>\<open>print(e)\<close>, and the display of a figure.\<close>

definition print_expr :: "(namespace \<Rightarrow> py_error + pyval) \<Rightarrow> stmt" where
  "print_expr e ns = bind_e (e ns) (\<lambda>v. Inr ([v], ns))"

text \<open>\<open>df[c] = e\<close>: the right-hand side is evaluated first, then the table named \<open>df\<close> is
  updated. In the cells \<open>e\<close> is made from a column of \<open>df\<close> itself, so it has the row labels
  of \<open>df\<close> and each of its entries goes to the row it came from; the labels stay.\<close>

definition assign_column :: "string \<Rightarrow> string \<Rightarrow> (namespace \<Rightarrow> py_error + col) \<Rightarrow> stmt" where
  "assign_column x c e ns =
     bind_e (e ns) (\<lambda>v. bind_e (lookup_table ns x)
       (\<lambda>(idx, df). Inr ([], ns(x \<mapsto> Frame idx (setitem df c v)))))"

text \<open>
  Running the cells of a notebook in order: the run stops at the first cell that
  raises.
\<close>

fun run_all :: "cell list \<Rightarrow> namespace \<Rightarrow> py_error option \<times> namespace" where
  "run_all [] ns = (None, ns)"
| "run_all (c # cs) ns =
     (case c ns of
        (Some e, out, ns') \<Rightarrow> (Some e, ns')
      | (None, out, ns') \<Rightarrow> run_all cs ns')"

text \<open>
  Two-run independence from the prior notebook state. Two namespaces agree on a set of
  names when they bind them alike. A cell depends on the prior state only through the
  names \<open>R\<close> when, from any two namespaces that agree on \<open>R\<close>, it raises the same, prints
  the same and makes the same bindings \<open>U\<close>, touching nothing else. A cell is
  self-contained when it does so from every namespace: it reads no binding of another
  cell.
\<close>

definition agree :: "string set \<Rightarrow> namespace \<Rightarrow> namespace \<Rightarrow> bool" where
  "agree R ns ns' = (\<forall>x\<in>R. ns x = ns' x)"





text \<open>
  \<open>est.fit_transform(data)\<close> runs the routine of the estimator's class on the data; an
  object without that method, or data of another shape, raises.
\<close>

definition fit_transform :: "pyval \<Rightarrow> pyval \<Rightarrow> py_error + pyval" where
  "fit_transform est data =
     (case (est, data) of
        (Estimator LabelEncoder, StrList xs) \<Rightarrow> Inr (IntList (label_fit_transform xs))
      | (Estimator (OrdinalEncoder cats), StrRows X) \<Rightarrow>
          bind_e (ordinal_fit_transform cats X) (\<lambda>Y. Inr (Array Y))
      | (Estimator MinMaxScaler, IntArray X) \<Rightarrow>
          bind_e (minmax_fit_transform X) (\<lambda>Y. Inr (Array Y))
      | (Estimator StandardScaler, IntArray X) \<Rightarrow>
          bind_e (standard_fit_transform X) (\<lambda>Y. Inr (RealArray Y))
      | (Estimator RobustScaler, IntArray X) \<Rightarrow>
          bind_e (robust_fit_transform X) (\<lambda>Y. Inr (Array Y))
      | (Estimator _, _) \<Rightarrow> Inl ValueError
      | _ \<Rightarrow> Inl AttributeError)"

text \<open>The expression \<open>e.fit_transform(d)\<close> for two names \<open>e\<close> and \<open>d\<close>.\<close>

definition fit_transform_expr :: "string \<Rightarrow> string \<Rightarrow> namespace \<Rightarrow> py_error + pyval" where
  "fit_transform_expr e d ns =
     bind_e (lookup ns e) (\<lambda>est. bind_e (lookup ns d) (\<lambda>data. fit_transform est data))"

section \<open>categorical\_encoding.ipynb\<close>

text \<open>Cell 1 (label encoding): \<open>encoded = le.fit_transform(data)\<close>.\<close>

definition label_cell :: cell where
  "label_cell = run_stmts
     [assign ''LabelEncoder'' (Imported ''sklearn.preprocessing.LabelEncoder''),
      assign ''data'' (StrList [''red'', ''green'', ''blue'', ''green'', ''red'']),
      assign ''le'' (Estimator LabelEncoder),
      assign_expr ''encoded'' (fit_transform_expr ''le'' ''data''),
      print_expr (\<lambda>ns. lookup ns ''encoded'')]"

text \<open>Cell 2 (one-hot encoding): \<open>one_hot = pd.get_dummies(df['color'])\<close>.\<close>

definition color_column :: "string option list" where
  "color_column = map Some [''red'', ''green'', ''blue'', ''green'', ''red'']"

definition one_hot_expr :: "namespace \<Rightarrow> py_error + pyval" where
  "one_hot_expr ns =
     bind_e (lookup ns ''pd'') (\<lambda>pd. bind_e (lookup_table ns ''df'') (\<lambda>(idx, df).
       bind_e (getitem df ''color'') (\<lambda>c.
         case c of StrCol xs \<Rightarrow> Inr (Frame idx (get_dummies xs)) | _ \<Rightarrow> Inl TypeError)))"

definition one_hot_cell :: cell where
  "one_hot_cell = run_stmts
     [assign ''pd'' (Imported ''pandas''),
      assign ''df'' (data_frame [(''color'', StrCol color_column)]),
      assign_expr ''one_hot'' one_hot_expr,
      print_expr (\<lambda>ns. lookup ns ''one_hot'')]"

text \<open>Cell 3 (ordinal encoding): \<open>encoded = encoder.fit_transform(data)\<close>.\<close>

definition ordinal_cell :: cell where
  "ordinal_cell = run_stmts
     [assign ''OrdinalEncoder'' (Imported ''sklearn.preprocessing.OrdinalEncoder''),
      assign ''data'' (StrRows [[''low''], [''medium''], [''high''], [''medium''], [''low'']]),
      assign ''encoder'' (Estimator (OrdinalEncoder [[''low'', ''medium'', ''high'']])),
      assign_expr ''encoded'' (fit_transform_expr ''encoder'' ''data''),
      print_expr (\<lambda>ns. lookup ns ''encoded'')]"

text \<open>
  Cell 4 (target encoding). Its two statements are the repository's own composition:
  \<^verbatim>\<open>target_means = df.groupby('category')['target'].mean()\<close> and
  \<^verbatim>\<open>df['category_encoded'] = df['category'].map(target_means)\<close>.
\<close>

definition target_frame :: dataframe where
  "target_frame =
     [(''category'', StrCol (map Some [''A'', ''B'', ''A'', ''C'', ''B''])),
      (''target'', NumCol (map Some [10, 20, 15, 10, 25]))]"

definition target_means_expr :: "namespace \<Rightarrow> py_error + pyval" where
  "target_means_expr ns =
     bind_e (lookup_frame ns ''df'') (\<lambda>df. bind_e (getitem df ''category'') (\<lambda>kc.
       bind_e (getitem df ''target'') (\<lambda>tc. bind_e (numeric_values tc) (\<lambda>vs.
         Inr (LabelledMeans (group_means_col kc vs))))))"

definition category_encoded_expr :: "namespace \<Rightarrow> py_error + col" where
  "category_encoded_expr ns =
     bind_e (lookup_frame ns ''df'') (\<lambda>df. bind_e (getitem df ''category'') (\<lambda>kc.
       bind_e (lookup ns ''target_means'') (\<lambda>m.
         case m of
           LabelledMeans ms \<Rightarrow> Inr (NumCol (map_series (col_values kc) ms))
         | _ \<Rightarrow> Inl TypeError)))"

definition target_encoding_stmts :: "stmt list" where
  "target_encoding_stmts =
     [assign_expr ''target_means'' target_means_expr,
      assign_column ''df'' ''category_encoded'' category_encoded_expr]"

definition target_cell :: cell where
  "target_cell = run_stmts
     ([assign ''pd'' (Imported ''pandas''),
       assign ''df'' (data_frame target_frame)]
      @ target_encoding_stmts
      @ [print_expr (\<lambda>ns. lookup ns ''df'')])"


text \<open>
  Cell 5 (frequency encoding) builds no table of its own:
  \<^verbatim>\<open>freq = df['category'].value_counts()\<close>,
  \<^verbatim>\<open>df['category_freq'] = df['category'].map(freq)\<close>, \<^verbatim>\<open>print(df)\<close>.
\<close>

definition freq_expr :: "namespace \<Rightarrow> py_error + pyval" where
  "freq_expr ns =
     bind_e (lookup_frame ns ''df'') (\<lambda>df. bind_e (getitem df ''category'') (\<lambda>kc.
       Inr (LabelledCounts (value_counts_col kc))))"

definition category_freq_expr :: "namespace \<Rightarrow> py_error + col" where
  "category_freq_expr ns =
     bind_e (lookup_frame ns ''df'') (\<lambda>df. bind_e (getitem df ''category'') (\<lambda>kc.
       bind_e (lookup ns ''freq'') (\<lambda>m.
         case m of
           LabelledCounts cs \<Rightarrow>
             Inr (NumCol (map_series (col_values kc) (map (\<lambda>(k, n). (k, Some (rat_of_nat n))) cs)))
         | _ \<Rightarrow> Inl TypeError)))"

definition freq_cell :: cell where
  "freq_cell = run_stmts
     [assign_expr ''freq'' freq_expr,
      assign_column ''df'' ''category_freq'' category_freq_expr,
      print_expr (\<lambda>ns. lookup ns ''df'')]"

definition categorical_encoding_nb :: "cell list" where
  "categorical_encoding_nb = [label_cell, one_hot_cell, ordinal_cell, target_cell, freq_cell]"


section \<open>missing\_values.ipynb\<close>

text \<open>
  Cell 1 builds the sample table from a dictionary of lists, prints it, and counts and
  draws its missing entries.
\<close>

definition missing_frame :: dataframe where
  "missing_frame =
     [(''Age'', NumCol [Some 25, Some 30, None, Some 22, Some 28, None, Some 35]),
      (''Gender'', StrCol [Some ''Male'', Some ''Female'', Some ''Female'', None,
                          Some ''Male'', Some ''Female'', None]),
      (''Income'', NumCol [Some 50000, Some 60000, Some 55000, Some 52000, None,
                          Some 58000, Some 60000]),
      (''City'', StrCol [Some ''London'', Some ''Manchester'', Some ''Bristol'', Some ''London'',
                        Some ''Bristol'', None, Some ''Manchester''])]"

definition isnull :: "dataframe \<Rightarrow> dataframe" where
  "isnull df = map (\<lambda>(c, x). (c, BoolCol (map (\<lambda>v. v = None) (col_values x)))) df"

definition isnull_sum :: "dataframe \<Rightarrow> (string \<times> nat) list" where
  "isnull_sum df = map (\<lambda>(c, x). (c, length (filter (\<lambda>v. v = None) (col_values x)))) df"

definition frame_from_data :: "namespace \<Rightarrow> py_error + pyval" where
  "frame_from_data ns =
     bind_e (lookup ns ''pd'') (\<lambda>pd. bind_e (lookup ns ''data'') (\<lambda>data.
       case data of Dict d \<Rightarrow> Inr (data_frame d) | _ \<Rightarrow> Inl ValueError))"

definition detect_cell :: cell where
  "detect_cell = run_stmts
     [assign ''pd'' (Imported ''pandas''),
      assign ''np'' (Imported ''numpy''),
      assign ''sns'' (Imported ''seaborn''),
      assign ''plt'' (Imported ''matplotlib.pyplot''),
      assign ''data'' (Dict missing_frame),
      assign_expr ''df'' frame_from_data,
      print_expr (\<lambda>ns. lookup ns ''df''),
      print_expr (\<lambda>ns. bind_e (lookup_frame ns ''df'') (\<lambda>df. Inr (NullCounts (isnull_sum df)))),
      print_expr (\<lambda>ns. bind_e (lookup ns ''sns'') (\<lambda>sns. bind_e (lookup_frame ns ''df'') (\<lambda>df.
                     bind_e (lookup ns ''plt'') (\<lambda>plt. Inr (Figure (isnull df))))))]"

text \<open>
  Cell 2: \<^verbatim>\<open>df_drop_rows = df.dropna()\<close> keeps the rows without a missing entry, under
  their labels, \<^verbatim>\<open>df_drop_cols = df.dropna(axis=1, thresh=int(len(df) * 0.5))\<close> keeps
  the columns with at least \<open>thresh\<close> entries present. Both return new tables.
\<close>

definition complete_rows :: "nat \<Rightarrow> dataframe \<Rightarrow> nat list" where
  "complete_rows n df =
     filter (\<lambda>i. list_all (\<lambda>(c, x). col_values x ! i \<noteq> None) df) [0..<n]"

fun take_rows :: "nat list \<Rightarrow> col \<Rightarrow> col" where
  "take_rows is (NumCol xs) = NumCol (map (\<lambda>i. xs ! i) is)"
| "take_rows is (StrCol xs) = StrCol (map (\<lambda>i. xs ! i) is)"
| "take_rows is (BoolCol xs) = BoolCol (map (\<lambda>i. xs ! i) is)"

definition dropna_rows :: "int list \<Rightarrow> dataframe \<Rightarrow> pyval" where
  "dropna_rows idx df =
     (let rows = complete_rows (length idx) df
      in Frame (map (\<lambda>i. idx ! i) rows) (map (\<lambda>(c, x). (c, take_rows rows x)) df))"

definition dropna_cols :: "nat \<Rightarrow> dataframe \<Rightarrow> dataframe" where
  "dropna_cols thresh df =
     filter (\<lambda>(c, x). thresh \<le> length (filter (\<lambda>v. v \<noteq> None) (col_values x))) df"

definition dropna_cell :: cell where
  "dropna_cell = run_stmts
     [assign_expr ''df_drop_rows''
        (\<lambda>ns. bind_e (lookup_table ns ''df'') (\<lambda>(idx, df). Inr (dropna_rows idx df))),
      assign_expr ''df_drop_cols''
        (\<lambda>ns. bind_e (lookup_table ns ''df'')
           (\<lambda>(idx, df). Inr (Frame idx (dropna_cols (length idx div 2) df))))]"

text \<open>
  Cell 3 (simple imputation), the repository's own glue:
  \<^verbatim>\<open>df['Age'] = df['Age'].fillna(df['Age'].mean())\<close> and
  \<^verbatim>\<open>df['Gender'] = df['Gender'].fillna(df['Gender'].mode()[0])\<close>.
\<close>

definition fill_age_expr :: "namespace \<Rightarrow> py_error + col" where
  "fill_age_expr ns =
     bind_e (lookup_frame ns ''df'') (\<lambda>df. bind_e (getitem df ''Age'') fill_with_mean)"

definition fill_gender_expr :: "namespace \<Rightarrow> py_error + col" where
  "fill_gender_expr ns =
     bind_e (lookup_frame ns ''df'') (\<lambda>df. bind_e (getitem df ''Gender'') fill_with_mode)"

definition simple_imputation_cell :: cell where
  "simple_imputation_cell = run_stmts
     [assign_column ''df'' ''Age'' fill_age_expr,
      assign_column ''df'' ''Gender'' fill_gender_expr]"

text \<open>
  Cell 4 (KNN imputation):
  \<^verbatim>\<open>num_cols = df.select_dtypes(include=['float64', 'int64']).columns\<close>,
  \<^verbatim>\<open>df_num = df[num_cols]\<close>, \<^verbatim>\<open>imputer = KNNImputer(n_neighbors=3)\<close>,
  \<^verbatim>\<open>df_num_imputed = pd.DataFrame(imputer.fit_transform(df_num), columns=num_cols)\<close>,
  \<^verbatim>\<open>df[num_cols] = df_num_imputed\<close>.
\<close>

fun is_numeric :: "col \<Rightarrow> bool" where
  "is_numeric (NumCol xs) = True"
| "is_numeric (StrCol xs) = False"
| "is_numeric (BoolCol xs) = False"

definition select_numeric :: "dataframe \<Rightarrow> string list" where
  "select_numeric df = map fst (filter (\<lambda>(c, x). is_numeric x) df)"

fun select_columns :: "dataframe \<Rightarrow> string list \<Rightarrow> py_error + dataframe" where
  "select_columns df [] = Inr []"
| "select_columns df (c # cs) =
     bind_e (getitem df c) (\<lambda>x. bind_e (select_columns df cs) (\<lambda>rest. Inr ((c, x) # rest)))"

text \<open>The array the imputer receives: the numeric columns of the table.\<close>

fun to_numeric_columns :: "dataframe \<Rightarrow> py_error + rat option list list" where
  "to_numeric_columns [] = Inr []"
| "to_numeric_columns ((c, x) # df) =
     bind_e (numeric_values x) (\<lambda>xs. bind_e (to_numeric_columns df) (\<lambda>rest. Inr (xs # rest)))"

text \<open>
  Modelled from the spec: the imputer takes its input as an array of \<open>float64\<close> numbers
  (IEEE 754 binary64); this conversion, done by the external libraries, is not in the
  repository. A number that is a \<open>float64\<close> value stays as it is; another one, such as an
  \<open>int64\<close> entry beyond \<open>2^53\<close>, is rounded to the nearest \<open>float64\<close> value, a tie going to
  the even significand. For \<open>2^e \<le> |v| < 2^(e+1)\<close> the \<open>float64\<close> values around \<open>v\<close> are the
  multiples of \<open>2^(e-52)\<close> (of \<open>2^(-1074)\<close> for the numbers below \<open>2^(-1022)\<close>). Numbers
  of \<open>2^1024\<close> and more, which no \<open>int64\<close> or \<open>float64\<close> entry is, are left out.
\<close>

definition pow2 :: "int \<Rightarrow> rat" where
  "pow2 k = (if 0 \<le> k then 2 ^ nat k else 1 / 2 ^ nat (- k))"

text \<open>For \<open>a > 0\<close>, the \<open>e\<close> with \<open>2^e \<le> a < 2^(e+1)\<close>.\<close>

definition binary_exponent :: "rat \<Rightarrow> int" where
  "binary_exponent a =
     (if 1 \<le> a then bitlen \<lfloor>a\<rfloor> - 1 else - bitlen (\<lceil>1 / a\<rceil> - 1))"

definition round_half_even :: "rat \<Rightarrow> int" where
  "round_half_even x =
     (let f = \<lfloor>x\<rfloor>; d = x - of_int f
      in if d < 1 / 2 then f else if 1 / 2 < d then f + 1 else if even f then f else f + 1)"

definition to_float64 :: "rat \<Rightarrow> rat" where
  "to_float64 v =
     (if v = 0 then 0
      else let a = \<bar>v\<bar>; u = pow2 (max (binary_exponent a) (- 1022) - 52)
           in sgn v * of_int (round_half_even (a / u)) * u)"

definition as_float_array :: "rat option list list \<Rightarrow> rat option list list" where
  "as_float_array X = map (map (map_option to_float64)) X"

text \<open>
  Modelled from the spec: \<open>KNNImputer\<close> of the external library is not in the
  repository. \<open>fit_transform\<close> takes its input as a \<open>float64\<close> array, raises \<open>ValueError\<close>
  on an array without rows or columns, drops the columns that have no entry at all, and
  in the others writes a value only where the entry is missing, leaving the entries
  present as they are. The value written in row \<open>i\<close> of column \<open>j\<close>, the mean of that
  column over the nearest rows that have it, is the parameter \<open>nb\<close>: the results below
  hold whatever it is. Arrays are given by columns.
\<close>

definition knn_impute ::
  "(rat option list list \<Rightarrow> nat \<Rightarrow> nat \<Rightarrow> rat) \<Rightarrow> rat option list list \<Rightarrow> py_error + rat list list" where
  "knn_impute nb X =
     (if X = [] \<or> hd X = [] then Inl ValueError
      else Inr (map (\<lambda>j. map (\<lambda>i. case X ! j ! i of None \<Rightarrow> nb X i j | Some v \<Rightarrow> v)
                              [0..<length (X ! j)])
                    (filter (\<lambda>j. list_ex (\<lambda>v. v \<noteq> None) (X ! j)) [0..<length X])))"

definition knn_fit_transform ::
  "(rat option list list \<Rightarrow> nat \<Rightarrow> nat \<Rightarrow> rat) \<Rightarrow> rat option list list \<Rightarrow> py_error + rat list list" where
  "knn_fit_transform nb X = knn_impute nb (as_float_array X)"

text \<open>\<open>pd.DataFrame(array, columns=names)\<close>: a new table of \<open>float64\<close> columns, its rows
  labelled \<open>0, ..., n - 1\<close>; \<open>ValueError\<close> when the array has another number of columns
  than there are names.\<close>

definition frame_from_array :: "rat list list \<Rightarrow> string list \<Rightarrow> py_error + pyval" where
  "frame_from_array A names =
     (if length A \<noteq> length names then Inl ValueError
      else Inr (data_frame (map (\<lambda>(c, xs). (c, NumCol (map Some xs))) (zip names A))))"

definition df_num_imputed_expr ::
  "(rat option list list \<Rightarrow> nat \<Rightarrow> nat \<Rightarrow> rat) \<Rightarrow> namespace \<Rightarrow> py_error + pyval" where
  "df_num_imputed_expr nb ns =
     bind_e (lookup ns ''pd'') (\<lambda>pd. bind_e (lookup ns ''imputer'') (\<lambda>imputer.
       bind_e (lookup_frame ns ''df_num'') (\<lambda>df_num.
         case imputer of
           Estimator (KNNImputer k) \<Rightarrow>
             bind_e (to_numeric_columns df_num) (\<lambda>X. bind_e (knn_fit_transform nb X) (\<lambda>A.
               bind_e (lookup ns ''num_cols'') (\<lambda>nc.
                 case nc of
                   ColumnIndex names \<Rightarrow> frame_from_array A names
                 | _ \<Rightarrow> Inl TypeError)))
         | _ \<Rightarrow> Inl AttributeError)))"

text \<open>
  Modelled from the spec: assigning a column that has row labels of its own to a table
  aligns it on the labels, as pandas does (the routine is not in the repository). With
  the same labels in the same order the column is taken as it is. Otherwise the row
  labelled \<open>l\<close> of the table takes the entry that the column has at its label \<open>l\<close>, and a
  missing entry when the column has no such label; a column whose labels are not
  distinct cannot be aligned (\<open>ValueError\<close>). A \<open>bool\<close> column that would get a missing
  entry becomes an \<open>object\<close> column of truth values in pandas, which the columns of this
  model do not hold (\<open>TypeError\<close> here; the cell assigns numeric columns only).
\<close>

definition label_positions :: "int list \<Rightarrow> int list \<Rightarrow> py_error + nat option list" where
  "label_positions oidx idx =
     (if distinct oidx then Inr (map (\<lambda>l. index_of l oidx) idx) else Inl ValueError)"

definition take_labelled :: "nat option list \<Rightarrow> 'a option list \<Rightarrow> 'a option list" where
  "take_labelled ps xs = map (\<lambda>p. case p of None \<Rightarrow> None | Some i \<Rightarrow> xs ! i) ps"

fun take_labels :: "nat option list \<Rightarrow> col \<Rightarrow> py_error + col" where
  "take_labels ps (NumCol xs) = Inr (NumCol (take_labelled ps xs))"
| "take_labels ps (StrCol xs) = Inr (StrCol (take_labelled ps xs))"
| "take_labels ps (BoolCol bs) =
     (if None \<in> set ps then Inl TypeError else Inr (BoolCol (map (\<lambda>p. bs ! the p) ps)))"

definition reindex_for_setitem :: "int list \<Rightarrow> col \<Rightarrow> int list \<Rightarrow> py_error + col" where
  "reindex_for_setitem oidx x idx =
     (if oidx = idx then Inr x
      else bind_e (label_positions oidx idx) (\<lambda>ps. take_labels ps x))"

text \<open>
  \<open>df[names] = other\<close> for a table \<open>other\<close> with the row labels \<open>oidx\<close>: the columns of
  \<open>other\<close>, in order, are assigned under the given names, each aligned on the row labels
  \<open>idx\<close> of \<open>df\<close>. The statement is reached with a table that has rows: the imputer raises
  on one without.
\<close>

fun set_columns ::
  "int list \<Rightarrow> dataframe \<Rightarrow> string list \<Rightarrow> int list \<Rightarrow> dataframe \<Rightarrow> py_error + dataframe" where
  "set_columns idx df (c # cs) oidx ((k, x) # other) =
     bind_e (reindex_for_setitem oidx x idx) (\<lambda>y. set_columns idx (setitem df c y) cs oidx other)"
| "set_columns idx df cs oidx other = Inr df"

definition assign_num_cols :: stmt where
  "assign_num_cols ns =
     bind_e (lookup_table ns ''df_num_imputed'') (\<lambda>(oidx, other).
       bind_e (lookup_table ns ''df'') (\<lambda>(idx, df).
         bind_e (lookup ns ''num_cols'') (\<lambda>nc.
           case nc of
             ColumnIndex names \<Rightarrow>
               if length names \<noteq> length other then Inl ValueError
               else bind_e (set_columns idx df names oidx other)
                      (\<lambda>df'. Inr ([], ns(''df'' \<mapsto> Frame idx df')))
           | _ \<Rightarrow> Inl TypeError)))"

definition knn_cell :: "(rat option list list \<Rightarrow> nat \<Rightarrow> nat \<Rightarrow> rat) \<Rightarrow> cell" where
  "knn_cell nb = run_stmts
     [assign ''KNNImputer'' (Imported ''sklearn.impute.KNNImputer''),
      assign_expr ''num_cols''
        (\<lambda>ns. bind_e (lookup_frame ns ''df'') (\<lambda>df. Inr (ColumnIndex (select_numeric df)))),
      assign_expr ''df_num''
        (\<lambda>ns. bind_e (lookup_table ns ''df'') (\<lambda>(idx, df). bind_e (lookup ns ''num_cols'') (\<lambda>nc.
           case nc of
             ColumnIndex names \<Rightarrow> bind_e (select_columns df names) (\<lambda>d. Inr (Frame idx d))
           | _ \<Rightarrow> Inl TypeError))),
      assign ''imputer'' (Estimator (KNNImputer 3)),
      assign_expr ''df_num_imputed'' (df_num_imputed_expr nb),
      assign_num_cols]"

definition missing_values_nb :: "(rat option list list \<Rightarrow> nat \<Rightarrow> nat \<Rightarrow> rat) \<Rightarrow> cell list" where
  "missing_values_nb nb = [detect_cell, dropna_cell, simple_imputation_cell, knn_cell nb]"


text \<open>
  Frame conditions (used to state what imputation leaves alone): a column \<open>y\<close> keeps the
  entries present in \<open>x\<close>; a table \<open>df'\<close> keeps the entries present in \<open>df\<close>. The numeric
  entries of a table are \<open>float64\<close> values when the conversion leaves each of them as it
  is; the columns of a table with the row labels \<open>idx\<close> have one entry for each label.
\<close>

definition preserves_col :: "col \<Rightarrow> col \<Rightarrow> bool" where
  "preserves_col x y =
     (\<forall>i v. i < col_len x \<and> col_values x ! i = Some v \<longrightarrow>
            i < col_len y \<and> col_values y ! i = Some v)"

definition preserved :: "dataframe \<Rightarrow> dataframe \<Rightarrow> bool" where
  "preserved df df' = (\<forall>c i v. entry df c i = Some v \<longrightarrow> entry df' c i = Some v)"

definition float64_entries :: "dataframe \<Rightarrow> bool" where
  "float64_entries df =
     list_all (\<lambda>(c, x). case x of
                  NumCol xs \<Rightarrow> list_all (\<lambda>v. to_float64 v = v) (dropna_values xs)
                | _ \<Rightarrow> True) df"

definition rows_labelled :: "int list \<Rightarrow> dataframe \<Rightarrow> bool" where
  "rows_labelled idx df = list_all (\<lambda>(c, x). col_len x = length idx) df"

text \<open>
  A table as the notebook's with other row labels (a slice of a larger table), and one
  with an \<open>int64\<close> entry that is not a \<open>float64\<close> value.
\<close>

definition relabelled_frame :: dataframe where
  "relabelled_frame =
     [(''Age'', NumCol [None, Some 30, Some 22]),
      (''Income'', NumCol [Some 60000, Some 55000, Some 52000])]"

definition large_income_frame :: dataframe where
  "large_income_frame = [(''Income'', NumCol [Some 9007199254740993, Some 50000])]"


section \<open>numeric\_scaling.ipynb: the cells\<close>

text \<open>
  Each of the three cells imports its scaler, builds its array and runs
  \<^verbatim>\<open>scaled_data = scaler.fit_transform(data)\<close>, \<^verbatim>\<open>print(scaled_data)\<close>.
\<close>

definition minmax_cell :: cell where
  "minmax_cell = run_stmts
     [assign ''MinMaxScaler'' (Imported ''sklearn.preprocessing.MinMaxScaler''),
      assign ''np'' (Imported ''numpy''),
      assign ''data'' (IntArray data_minmax),
      assign ''scaler'' (Estimator MinMaxScaler),
      assign_expr ''scaled_data'' (fit_transform_expr ''scaler'' ''data''),
      print_expr (\<lambda>ns. lookup ns ''scaled_data'')]"

definition standard_cell :: cell where
  "standard_cell = run_stmts
     [assign ''StandardScaler'' (Imported ''sklearn.preprocessing.StandardScaler''),
      assign ''np'' (Imported ''numpy''),
      assign ''data'' (IntArray data_minmax),
      assign ''scaler'' (Estimator StandardScaler),
      assign_expr ''scaled_data'' (fit_transform_expr ''scaler'' ''data''),
      print_expr (\<lambda>ns. lookup ns ''scaled_data'')]"

definition robust_cell :: cell where
  "robust_cell = run_stmts
     [assign ''RobustScaler'' (Imported ''sklearn.preprocessing.RobustScaler''),
      assign ''np'' (Imported ''numpy''),
      assign ''data'' (IntArray data_robust),
      assign ''scaler'' (Estimator RobustScaler),
      assign_expr ''scaled_data'' (fit_transform_expr ''scaler'' ''data''),
      print_expr (\<lambda>ns. lookup ns ''scaled_data'')]"

definition numeric_scaling_nb :: "cell list" where
  "numeric_scaling_nb = [minmax_cell, standard_cell, robust_cell]"

section \<open>date\_time\_processing.ipynb\<close>

text \<open>
  The single cell parses three timestamps with \<open>pd.to_datetime\<close>, reads their fields with
  the \<open>.dt\<close> accessor and encodes the hour on the circle:
  \<^verbatim>\<open>df['hour_sin'] = np.sin(2 * np.pi * df['hour'] / 24)\<close>,
  \<^verbatim>\<open>df['hour_cos'] = np.cos(2 * np.pi * df['hour'] / 24)\<close>.
\<close>

definition sample_timestamps :: "timestamp list" where
  "sample_timestamps =
     [\<lparr>ts_year = 2025, ts_month = 7, ts_day = 12, ts_hour = 14, ts_minute = 30, ts_second = 0\<rparr>,
      \<lparr>ts_year = 2025, ts_month = 7, ts_day = 13, ts_hour = 9, ts_minute = 15, ts_second = 0\<rparr>,
      \<lparr>ts_year = 2025, ts_month = 7, ts_day = 14, ts_hour = 20, ts_minute = 45, ts_second = 0\<rparr>]"

text \<open>Days since 1970-01-01 of a date of the Gregorian calendar.\<close>

definition days_from_civil :: "int \<Rightarrow> int \<Rightarrow> int \<Rightarrow> int" where
  "days_from_civil y m d =
     (let y' = (if m \<le> 2 then y - 1 else y);
          era = y' div 400;
          yoe = y' - era * 400;
          doy = (153 * (if m > 2 then m - 3 else m + 9) + 2) div 5 + d - 1;
          doe = yoe * 365 + yoe div 4 - yoe div 100 + doy
      in era * 146097 + doe - 719468)"

text \<open>\<open>.dt.weekday\<close>: Monday is 0 and Sunday is 6 (1970-01-01 was a Thursday).\<close>

definition weekday :: "timestamp \<Rightarrow> int" where
  "weekday t = (days_from_civil (ts_year t) (ts_month t) (ts_day t) + 3) mod 7"

definition lookup_time_frame :: "namespace \<Rightarrow> string \<Rightarrow> py_error + time_frame" where
  "lookup_time_frame ns x =
     bind_e (lookup ns x) (\<lambda>v. case v of TimeFrame tf \<Rightarrow> Inr tf | _ \<Rightarrow> Inl AttributeError)"

text \<open>\<open>df['timestamp'].dt.f\<close>: the accessor exists only on a column of timestamps.\<close>

definition dt_field :: "(timestamp \<Rightarrow> int) \<Rightarrow> namespace \<Rightarrow> py_error + tcol" where
  "dt_field f ns =
     bind_e (lookup_time_frame ns ''df'') (\<lambda>tf. bind_e (getitem tf ''timestamp'') (\<lambda>c.
       case c of TimeCol ts \<Rightarrow> Inr (IntCol (map f ts)) | _ \<Rightarrow> Inl AttributeError))"

definition assign_time_column :: "string \<Rightarrow> string \<Rightarrow> (namespace \<Rightarrow> py_error + tcol) \<Rightarrow> stmt" where
  "assign_time_column x c e ns =
     bind_e (e ns) (\<lambda>v. bind_e (lookup_time_frame ns x)
       (\<lambda>tf. Inr ([], ns(x \<mapsto> TimeFrame (setitem tf c v)))))"

text \<open>
  The division written in the cell. numpy does not raise on a zero divisor but yields
  infinities; the model reports that case as an error, so that it cannot pass for a
  number.
\<close>

definition true_divide :: "real list \<Rightarrow> real \<Rightarrow> py_error + real list" where
  "true_divide xs d = (if d = 0 then Inl ZeroDivisionError else Inr (map (\<lambda>x. x / d) xs))"

text \<open>\<open>2 * np.pi * hours / 24\<close>, and its sine and cosine.\<close>

definition hour_angles :: "int list \<Rightarrow> py_error + real list" where
  "hour_angles hs = true_divide (map (\<lambda>h. 2 * pi * real_of_int h) hs) 24"

definition hour_sin :: "int list \<Rightarrow> py_error + real list" where
  "hour_sin hs = bind_e (hour_angles hs) (\<lambda>as. Inr (map sin as))"

definition hour_cos :: "int list \<Rightarrow> py_error + real list" where
  "hour_cos hs = bind_e (hour_angles hs) (\<lambda>as. Inr (map cos as))"

definition cyclical_expr ::
  "(int list \<Rightarrow> py_error + real list) \<Rightarrow> namespace \<Rightarrow> py_error + tcol" where
  "cyclical_expr enc ns =
     bind_e (lookup ns ''np'') (\<lambda>np. bind_e (lookup_time_frame ns ''df'') (\<lambda>tf.
       bind_e (getitem tf ''hour'') (\<lambda>c.
         case c of IntCol hs \<Rightarrow> bind_e (enc hs) (\<lambda>ys. Inr (RealCol ys)) | _ \<Rightarrow> Inl TypeError)))"

definition datetime_cell :: cell where
  "datetime_cell = run_stmts
     [assign ''pd'' (Imported ''pandas''),
      assign ''np'' (Imported ''numpy''),
      assign ''df'' (TimeFrame [(''timestamp'', TimeCol sample_timestamps)]),
      assign_time_column ''df'' ''year'' (dt_field ts_year),
      assign_time_column ''df'' ''month'' (dt_field ts_month),
      assign_time_column ''df'' ''day'' (dt_field ts_day),
      assign_time_column ''df'' ''weekday'' (dt_field weekday),
      assign_time_column ''df'' ''hour'' (dt_field ts_hour),
      assign_time_column ''df'' ''hour_sin'' (cyclical_expr hour_sin),
      assign_time_column ''df'' ''hour_cos'' (cyclical_expr hour_cos),
      print_expr (\<lambda>ns. lookup ns ''df'')]"

section \<open>Tables the cells leave behind\<close>

text \<open>The tables printed by cells 4 and 5 of categorical\_encoding.ipynb.\<close>

definition target_encoded_frame :: dataframe where
  "target_encoded_frame =
     [(''category'', StrCol (map Some [''A'', ''B'', ''A'', ''C'', ''B''])),
      (''target'', NumCol (map Some [10, 20, 15, 10, 25])),
      (''category_encoded'', NumCol [Some (25/2), Some (45/2), Some (25/2), Some 10, Some (45/2)])]"

definition freq_encoded_frame :: dataframe where
  "freq_encoded_frame =
     target_encoded_frame @ [(''category_freq'', NumCol [Some 2, Some 2, Some 2, Some 1, Some 2])]"

text \<open>The sample table of missing\_values.ipynb after the simple imputation cell: the
  missing ages are 28 (the mean), the missing genders \<open>Female\<close> (the mode).\<close>

definition simple_imputed_frame :: dataframe where
  "simple_imputed_frame =
     [(''Age'', NumCol [Some 25, Some 30, Some 28, Some 22, Some 28, Some 28, Some 35]),
      (''Gender'', StrCol [Some ''Male'', Some ''Female'', Some ''Female'', Some ''Female'',
                          Some ''Male'', Some ''Female'', Some ''Female'']),
      (''Income'', NumCol [Some 50000, Some 60000, Some 55000, Some 52000, None,
                          Some 58000, Some 60000]),
      (''City'', StrCol [Some ''London'', Some ''Manchester'', Some ''Bristol'', Some ''London'',
                        Some ''Bristol'', None, Some ''Manchester''])]"

section \<open>The data-splitting notebook: stratified train/test split\<close>

text \<open>
  The first cell of the notebook loads the iris dataset and calls
  \<^verbatim>\<open>train_test_split(X, y, test_size=0.2, stratify=y, random_state=42)\<close>.

  Modelled from the spec: the iris dataset is external data, not in the repository. Its
  target holds 150 labels: 50 samples of each of the classes 0, 1 and 2, in this order.
\<close>

definition iris_target :: "nat list" where
  "iris_target = replicate 50 0 @ replicate 50 1 @ replicate 50 2"

text \<open>
  The random generator is seeded; what it draws is a parameter of the model: the
  permutation drawn for each class, the final orders of the two index lists, and the
  choices among classes of equal remainder for the training and the test allocation.
\<close>

record draws =
  class_perm :: "nat \<Rightarrow> nat list"
  train_order :: "nat list"
  test_order :: "nat list"
  train_choice :: "nat list \<Rightarrow> nat \<Rightarrow> nat list"
  test_choice :: "nat list \<Rightarrow> nat \<Rightarrow> nat list"

text \<open>The draws are permutations of the ranges they are drawn from.\<close>

definition valid_draws :: "draws \<Rightarrow> nat list \<Rightarrow> nat \<Rightarrow> nat \<Rightarrow> bool" where
  "valid_draws d class_counts n_train n_test =
     (list_all (\<lambda>k. mset (class_perm d k) = mset [0..<class_counts ! k]) [0..<length class_counts]
      \<and> mset (train_order d) = mset [0..<n_train]
      \<and> mset (test_order d) = mset [0..<n_test])"

text \<open>
  Modelled from the spec: \<open>train_test_split\<close> and the \<open>StratifiedShuffleSplit\<close> it uses
  are routines of the external library, not in the repository. The sizes: the test
  set has \<open>ceil(test_size * n)\<close> samples and the training set the rest; a fraction outside
  (0, 1) or an empty training set raises \<open>ValueError\<close>. The library computes the product,
  and the shares of the classes below, in floating point; at the numbers of the cell
  (\<open>0.2 * 150\<close>, \<open>50 / 150 * 120\<close>, \<open>10 / 30 * 30\<close>) the rounded results are the integers
  30, 40 and 10 of the exact arithmetic used here.
\<close>

definition validate_shuffle_split :: "nat \<Rightarrow> rat \<Rightarrow> py_error + nat \<times> nat" where
  "validate_shuffle_split n_samples test_size =
     (if test_size \<le> 0 \<or> 1 \<le> test_size then Inl ValueError
      else let n_test = nat \<lceil>test_size * of_nat n_samples\<rceil>;
               n_train = n_samples - n_test
           in if n_train = 0 then Inl ValueError else Inr (n_train, n_test))"

text \<open>
  The allocation of \<open>n_draws\<close> samples to the classes in proportion to their counts:
  the proportional shares rounded down, then one more for the classes of largest
  remainder until the total is reached, classes of equal remainder being chosen by the
  generator.
\<close>

fun add_by_remainder ::
  "(nat list \<Rightarrow> nat \<Rightarrow> nat list) \<Rightarrow> rat list \<Rightarrow> rat list \<Rightarrow> nat list \<Rightarrow> nat \<Rightarrow> nat list" where
  "add_by_remainder choice [] remainder floored need = floored"
| "add_by_remainder choice (v # vs) remainder floored need =
     (let inds = filter (\<lambda>i. remainder ! i = v) [0..<length remainder];
          add_now = min (length inds) need;
          chosen = choice inds add_now;
          floored' = fold (\<lambda>i f. f[i := f ! i + 1]) chosen floored;
          need' = need - add_now
      in if need' = 0 then floored' else add_by_remainder choice vs remainder floored' need')"

definition approximate_mode ::
  "(nat list \<Rightarrow> nat \<Rightarrow> nat list) \<Rightarrow> nat list \<Rightarrow> nat \<Rightarrow> nat list" where
  "approximate_mode choice class_counts n_draws =
     (let continuous = map (\<lambda>c. rat_of_nat c / rat_of_nat (sum_list class_counts) * rat_of_nat n_draws)
                           class_counts;
          floored = map (\<lambda>x. nat \<lfloor>x\<rfloor>) continuous;
          need_to_add = n_draws - sum_list floored
      in if need_to_add > 0
         then let remainder = map (\<lambda>x. x - of_int \<lfloor>x\<rfloor>) continuous
              in add_by_remainder choice (rev (sort (remdups remainder))) remainder floored need_to_add
         else floored)"

text \<open>\<open>a.take(idx, mode="clip")\<close> and \<open>rng.permutation(a)\<close> for a drawn order.\<close>

definition take_clip :: "nat list \<Rightarrow> nat list \<Rightarrow> nat list" where
  "take_clip a idx = map (\<lambda>j. a ! min j (length a - 1)) idx"

definition permute :: "nat list \<Rightarrow> nat list \<Rightarrow> nat list" where
  "permute order a = map (\<lambda>k. a ! k) order"

text \<open>
  The loop over the classes: the indices of class \<open>k\<close> are permuted; the first \<open>n_i[k]\<close>
  go to the training set and the next \<open>t_i[k]\<close> to the test set.
\<close>

fun split_classes ::
  "(nat \<Rightarrow> nat list) \<Rightarrow> nat list list \<Rightarrow> nat list \<Rightarrow> nat list \<Rightarrow> nat \<Rightarrow> nat list \<times> nat list" where
  "split_classes perm [] n_i t_i k = ([], [])"
| "split_classes perm (cidx # rest) n_i t_i k =
     (let p = take_clip cidx (perm k);
          (train, test) = split_classes perm rest n_i t_i (Suc k)
      in (take (n_i ! k) p @ train, take (t_i ! k) (drop (n_i ! k) p) @ test))"

definition stratified_shuffle_split ::
  "draws \<Rightarrow> nat list \<Rightarrow> nat \<Rightarrow> nat \<Rightarrow> py_error + nat list \<times> nat list" where
  "stratified_shuffle_split d y n_train n_test =
     (let classes = sort (remdups y);
          class_counts = map (count_list y) classes;
          n_classes = length classes
      in if list_ex (\<lambda>c. c < 2) class_counts then Inl ValueError
         else if n_train < n_classes \<or> n_test < n_classes then Inl ValueError
         else
           let class_indices = map (\<lambda>c. filter (\<lambda>i. y ! i = c) [0..<length y]) classes;
               n_i = approximate_mode (train_choice d) class_counts n_train;
               class_counts_remaining = map (\<lambda>(c, n). c - n) (zip class_counts n_i);
               t_i = approximate_mode (test_choice d) class_counts_remaining n_test;
               (train, test) = split_classes (class_perm d) class_indices n_i t_i 0
           in Inr (permute (train_order d) train, permute (test_order d) test))"

text \<open>The indices of the training and of the test samples, for the labels \<open>y\<close>.\<close>

definition train_test_split :: "draws \<Rightarrow> nat list \<Rightarrow> rat \<Rightarrow> py_error + nat list \<times> nat list" where
  "train_test_split d y test_size =
     bind_e (validate_shuffle_split (length y) test_size)
            (\<lambda>(n_train, n_test). stratified_shuffle_split d y n_train n_test)"

text \<open>The number of samples of class \<open>c\<close> among the indices \<open>is\<close>.\<close>

definition class_count :: "nat list \<Rightarrow> nat \<Rightarrow> nat list \<Rightarrow> nat" where
  "class_count y c is = length (filter (\<lambda>i. y ! i = c) is)"

text \<open>The draws that leave every order as it is.\<close>

definition identity_draws :: draws where
  "identity_draws =
     \<lparr>class_perm = (\<lambda>k. [0..<50]), train_order = [0..<120], test_order = [0..<30],
      train_choice = (\<lambda>inds n. take n inds), test_choice = (\<lambda>inds n. take n inds)\<rparr>"

section \<open>The call structure of the cells\<close>

text \<open>
  How an operation is carried out is a matter of the source text of its cell: which
  library routines are called, and what the notebook writes around them. The
  expressions and statements of the cells are transcribed here as syntax trees; a literal
  without calls in it is \<open>Lit\<close>, a keyword argument stands among the arguments.
\<close>

datatype pyexpr =
    Name string
  | Lit
  | Coll "pyexpr list"
  | Attr pyexpr string
  | Subscript pyexpr pyexpr
  | Call pyexpr "pyexpr list"
  | BinOp pyexpr string pyexpr

datatype pystmt =
    Import string
  | Assign "pyexpr list" pyexpr
  | ExprStmt pyexpr

text \<open>The name a call is made by: \<open>f\<close> in \<open>f(...)\<close>, \<open>m\<close> in \<open>e.m(...)\<close>.\<close>

fun callee_name :: "pyexpr \<Rightarrow> string" where
  "callee_name (Name f) = f"
| "callee_name (Attr e m) = m"
| "callee_name e = ''''"

text \<open>The calls of an expression, in the order in which they are made.\<close>

fun calls :: "pyexpr \<Rightarrow> string list" where
  "calls (Name x) = []"
| "calls Lit = []"
| "calls (Coll es) = concat (map calls es)"
| "calls (Attr e a) = calls e"
| "calls (Subscript e k) = calls e @ calls k"
| "calls (Call f args) = calls f @ concat (map calls args) @ [callee_name f]"
| "calls (BinOp l op r) = calls l @ calls r"

text \<open>The arithmetic the notebook itself writes: the binary operators of an expression.\<close>

fun binops :: "pyexpr \<Rightarrow> string list" where
  "binops (Name x) = []"
| "binops Lit = []"
| "binops (Coll es) = concat (map binops es)"
| "binops (Attr e a) = binops e"
| "binops (Subscript e k) = binops e @ binops k"
| "binops (Call f args) = binops f @ concat (map binops args)"
| "binops (BinOp l op r) = binops l @ binops r @ [op]"

fun stmt_calls :: "pystmt \<Rightarrow> string list" where
  "stmt_calls (Import m) = []"
| "stmt_calls (Assign targets e) = calls e @ concat (map calls targets)"
| "stmt_calls (ExprStmt e) = calls e"

fun stmt_binops :: "pystmt \<Rightarrow> string list" where
  "stmt_binops (Import m) = []"
| "stmt_binops (Assign targets e) = binops e @ concat (map binops targets)"
| "stmt_binops (ExprStmt e) = binops e"

text \<open>
  Calls that transform no data: the constructors of estimators and of their
  parameters, the construction and loading of the input, the wrapping of an array as a
  table, and printing.
\<close>

definition setup_names :: "string list" where
  "setup_names =
     [''LabelEncoder'', ''OrdinalEncoder'', ''MinMaxScaler'', ''StandardScaler'', ''RobustScaler'',
      ''KNNImputer'', ''LogisticRegression'', ''StratifiedKFold'', ''GridSearchCV'',
      ''array'', ''DataFrame'', ''to_datetime'', ''load_iris'', ''print'']"

definition transform_calls :: "pystmt list \<Rightarrow> string list" where
  "transform_calls ss = filter (\<lambda>f. f \<notin> set setup_names) (concat (map stmt_calls ss))"

definition own_arithmetic :: "pystmt list \<Rightarrow> string list" where
  "own_arithmetic ss = concat (map stmt_binops ss)"

text \<open>An operation is a single call into the library when its source makes exactly one
  transforming call and writes no arithmetic of its own.\<close>

definition single_library_call :: "pystmt list \<Rightarrow> bool" where
  "single_library_call ss = (length (transform_calls ss) = 1 \<and> own_arithmetic ss = [])"

text \<open>numeric\_scaling.ipynb: the three cells differ in the scaler (and the array).\<close>

definition scaler_src :: "string \<Rightarrow> pystmt list" where
  "scaler_src cls =
     [Import (''sklearn.preprocessing.'' @ cls),
      Import ''numpy'',
      Assign [Name ''data''] (Call (Attr (Name ''np'') ''array'') [Lit]),
      Assign [Name ''scaler''] (Call (Name cls) []),
      Assign [Name ''scaled_data''] (Call (Attr (Name ''scaler'') ''fit_transform'') [Name ''data'']),
      ExprStmt (Call (Name ''print'') [Name ''scaled_data''])]"

text \<open>categorical\_encoding.ipynb.\<close>

definition label_src :: "pystmt list" where
  "label_src =
     [Import ''sklearn.preprocessing.LabelEncoder'',
      Assign [Name ''data''] Lit,
      Assign [Name ''le''] (Call (Name ''LabelEncoder'') []),
      Assign [Name ''encoded''] (Call (Attr (Name ''le'') ''fit_transform'') [Name ''data'']),
      ExprStmt (Call (Name ''print'') [Name ''encoded''])]"

definition one_hot_src :: "pystmt list" where
  "one_hot_src =
     [Import ''pandas'',
      Assign [Name ''df''] (Call (Attr (Name ''pd'') ''DataFrame'') [Lit]),
      Assign [Name ''one_hot'']
        (Call (Attr (Name ''pd'') ''get_dummies'') [Subscript (Name ''df'') Lit]),
      ExprStmt (Call (Name ''print'') [Name ''one_hot''])]"

definition ordinal_src :: "pystmt list" where
  "ordinal_src =
     [Import ''sklearn.preprocessing.OrdinalEncoder'',
      Assign [Name ''data''] Lit,
      Assign [Name ''encoder''] (Call (Name ''OrdinalEncoder'') [Lit]),
      Assign [Name ''encoded''] (Call (Attr (Name ''encoder'') ''fit_transform'') [Name ''data'']),
      ExprStmt (Call (Name ''print'') [Name ''encoded''])]"

definition target_src :: "pystmt list" where
  "target_src =
     [Import ''pandas'',
      Assign [Name ''df''] (Call (Attr (Name ''pd'') ''DataFrame'') [Lit]),
      Assign [Name ''target_means'']
        (Call (Attr (Subscript (Call (Attr (Name ''df'') ''groupby'') [Lit]) Lit) ''mean'') []),
      Assign [Subscript (Name ''df'') Lit]
        (Call (Attr (Subscript (Name ''df'') Lit) ''map'') [Name ''target_means'']),
      ExprStmt (Call (Name ''print'') [Name ''df''])]"

definition frequency_src :: "pystmt list" where
  "frequency_src =
     [Assign [Name ''freq''] (Call (Attr (Subscript (Name ''df'') Lit) ''value_counts'') []),
      Assign [Subscript (Name ''df'') Lit]
        (Call (Attr (Subscript (Name ''df'') Lit) ''map'') [Name ''freq'']),
      ExprStmt (Call (Name ''print'') [Name ''df''])]"

text \<open>missing\_values.ipynb.\<close>

definition simple_imputation_src :: "pystmt list" where
  "simple_imputation_src =
     [Assign [Subscript (Name ''df'') Lit]
        (Call (Attr (Subscript (Name ''df'') Lit) ''fillna'')
              [Call (Attr (Subscript (Name ''df'') Lit) ''mean'') []]),
      Assign [Subscript (Name ''df'') Lit]
        (Call (Attr (Subscript (Name ''df'') Lit) ''fillna'')
              [Subscript (Call (Attr (Subscript (Name ''df'') Lit) ''mode'') []) Lit])]"

definition knn_imputation_src :: "pystmt list" where
  "knn_imputation_src =
     [Import ''sklearn.impute.KNNImputer'',
      Assign [Name ''num_cols'']
        (Attr (Call (Attr (Name ''df'') ''select_dtypes'') [Lit]) ''columns''),
      Assign [Name ''df_num''] (Subscript (Name ''df'') (Name ''num_cols'')),
      Assign [Name ''imputer''] (Call (Name ''KNNImputer'') [Lit]),
      Assign [Name ''df_num_imputed'']
        (Call (Attr (Name ''pd'') ''DataFrame'')
              [Call (Attr (Name ''imputer'') ''fit_transform'') [Name ''df_num''],
               Name ''num_cols'']),
      Assign [Subscript (Name ''df'') (Name ''num_cols'')] (Name ''df_num_imputed'')]"

text \<open>date\_time\_processing.ipynb: the statements of the cell that extract the fields, and
  those that encode the hour.\<close>

definition dt_read :: "string \<Rightarrow> pystmt" where
  "dt_read field =
     Assign [Subscript (Name ''df'') Lit] (Attr (Attr (Subscript (Name ''df'') Lit) ''dt'') field)"

definition datetime_extraction_src :: "pystmt list" where
  "datetime_extraction_src =
     [dt_read ''year'', dt_read ''month'', dt_read ''day'', dt_read ''weekday'', dt_read ''hour'']"

definition cyclical_stmt :: "string \<Rightarrow> pystmt" where
  "cyclical_stmt trig =
     Assign [Subscript (Name ''df'') Lit]
       (Call (Attr (Name ''np'') trig)
          [BinOp (BinOp (BinOp Lit ''*'' (Attr (Name ''np'') ''pi'')) ''*''
                        (Subscript (Name ''df'') Lit))
                 ''/'' Lit])"

definition cyclical_src :: "pystmt list" where
  "cyclical_src = [cyclical_stmt ''sin'', cyclical_stmt ''cos'']"

definition datetime_src :: "pystmt list" where
  "datetime_src =
     [Import ''pandas'', Import ''numpy'',
      Assign [Name ''df'']
        (Call (Attr (Name ''pd'') ''DataFrame'')
              [Coll [Call (Attr (Name ''pd'') ''to_datetime'') [Lit]]])]
     @ datetime_extraction_src @ cyclical_src
     @ [ExprStmt (Call (Name ''print'') [Name ''df''])]"

text \<open>The data-splitting notebook: the split cell and the grid-search cell.\<close>

definition split_src :: "pystmt list" where
  "split_src =
     [Import ''sklearn.datasets.load_iris'',
      Import ''sklearn.model_selection.train_test_split'',
      Assign [Name ''iris''] (Call (Name ''load_iris'') []),
      Assign [Name ''X'', Name ''y'']
        (Coll [Attr (Name ''iris'') ''data'', Attr (Name ''iris'') ''target'']),
      Assign [Name ''X_train'', Name ''X_test'', Name ''y_train'', Name ''y_test'']
        (Call (Name ''train_test_split'') [Name ''X'', Name ''y'', Lit, Name ''y'', Lit])]"

definition grid_search_src :: "pystmt list" where
  "grid_search_src =
     [Import ''sklearn.linear_model.LogisticRegression'',
      Import ''sklearn.model_selection.GridSearchCV'',
      Import ''sklearn.model_selection.StratifiedKFold'',
      Assign [Name ''param_grid''] Lit,
      Assign [Name ''cv''] (Call (Name ''StratifiedKFold'') [Lit, Lit, Lit]),
      Assign [Name ''grid'']
        (Call (Name ''GridSearchCV'')
              [Call (Name ''LogisticRegression'') [Lit], Name ''param_grid'', Name ''cv'', Lit]),
      ExprStmt (Call (Attr (Name ''grid'') ''fit'') [Name ''X_train'', Name ''y_train'']),
      ExprStmt (Call (Name ''print'') [Lit, Attr (Name ''grid'') ''best_params_''])]"

text \<open>The operations the notebooks demonstrate.\<close>

definition operations :: "pystmt list list" where
  "operations =
     [scaler_src ''MinMaxScaler'', scaler_src ''StandardScaler'', scaler_src ''RobustScaler'',
      label_src, one_hot_src, ordinal_src, target_src, frequency_src,
      simple_imputation_src, knn_imputation_src, datetime_extraction_src, cyclical_src,
      split_src, grid_search_src]"

section \<open>Properties of the scalers\<close>






lemma column_nth: "i < length X \<Longrightarrow> column j X ! i = X ! i ! j"
  by (simp add: column_def)

lemma column_nonempty: "X \<noteq> [] \<Longrightarrow> column j X \<noteq> []"
  by (simp add: column_def)



lemma minmax_data_value:
  "minmax_fit_transform data_minmax = Inr [[0, 0], [1/4, 1/4], [1/2, 1/2], [3/4, 3/4], [1, 1]]"
  by (simp add: minmax_fit_transform_def data_minmax_def check_array_def
      n_features_def minmax_transform_def minmax_fit_def columns_of_def column_def
      col_min_def col_max_def handle_zeros_in_scale_def float_eps_def Let_def)

text \<open>
  Claim C3. Min-max scaling computes \<open>(X - X_min) / (X_max - X_min)\<close>: for every integer
  array and every column whose maximum exceeds its minimum, each entry of the result of
  \<open>fit_transform\<close> is that expression, and the notebook's cell prints exactly
  \<open>[[0,0],[1/4,1/4],[1/2,1/2],[3/4,3/4],[1,1]]\<close>.
\<close>

lemma minmax_cell_result:
  "minmax_cell ns =
     (None, [Array [[0, 0], [1/4, 1/4], [1/2, 1/2], [3/4, 3/4], [1, 1]]],
      ns(''MinMaxScaler'' \<mapsto> Imported ''sklearn.preprocessing.MinMaxScaler'',
         ''np'' \<mapsto> Imported ''numpy'',
         ''data'' \<mapsto> IntArray data_minmax,
         ''scaler'' \<mapsto> Estimator MinMaxScaler,
         ''scaled_data'' \<mapsto> Array [[0, 0], [1/4, 1/4], [1/2, 1/2], [3/4, 3/4], [1, 1]]))"
  by (simp add: minmax_cell_def assign_def assign_expr_def print_expr_def fit_transform_expr_def
      fit_transform_def lookup_def bind_e_def minmax_data_value)











lemma robust_data_value:
  "robust_fit_transform data_robust = Inr [[-1, -1], [-1/2, -1/2], [0, 0], [1/2, 1/2], [98, 1]]"
  by (simp add: robust_fit_transform_def data_robust_def check_array_def
      n_features_def robust_transform_def robust_fit_def columns_of_def column_def iqr_def
      np_median_def np_percentile_def handle_zeros_in_scale_def float_eps_def Let_def)


text \<open>
  Claim C4. Robust scaling is median/IQR based: for every integer array and every column
  with a nonzero interquartile range, each entry of the result of \<open>fit_transform\<close> is
  \<open>(X - median(X)) / (Q3(X) - Q1(X))\<close>, the quartiles being the percentiles 25 and 75 by
  linear interpolation; the first column of the notebook's array, \<open>[10,15,20,25,1000]\<close>,
  has median 20, Q1 15 and Q3 25 and is scaled to \<open>[-1,-1/2,0,1/2,98]\<close>.
\<close>

lemma robust_cell_result:
  "robust_cell ns =
     (None, [Array [[-1, -1], [-1/2, -1/2], [0, 0], [1/2, 1/2], [98, 1]]],
      ns(''RobustScaler'' \<mapsto> Imported ''sklearn.preprocessing.RobustScaler'',
         ''np'' \<mapsto> Imported ''numpy'',
         ''data'' \<mapsto> IntArray data_robust,
         ''scaler'' \<mapsto> Estimator RobustScaler,
         ''scaled_data'' \<mapsto> Array [[-1, -1], [-1/2, -1/2], [0, 0], [1/2, 1/2], [98, 1]]))"
  by (simp add: robust_cell_def assign_def assign_expr_def print_expr_def fit_transform_expr_def
      fit_transform_def lookup_def bind_e_def robust_data_value)



section \<open>Properties of the encoders\<close>

lemma set_dropna_values: "set (dropna_values xs) = {x. Some x \<in> set xs}"
  by (induction xs rule: dropna_values.induct) auto

lemma set_categories: "set (categories xs) = {x. Some x \<in> set xs}"
  by (simp add: categories_def set_dropna_values)

lemma distinct_categories: "distinct (categories xs)"
  by (simp add: categories_def)

lemma filter_eq_distinct_one:
  "distinct cs \<Longrightarrow> a \<in> set cs \<Longrightarrow> length (filter (\<lambda>c. a = c) cs) = 1"
  by (induction cs) (auto simp: filter_empty_conv)

lemma map_of_tabulate:
  "c \<in> set cs \<Longrightarrow> map_of (map (\<lambda>k. (k, f k)) cs) c = Some (f c)"
  by (induction cs) auto

lemma frame_row_get_dummies:
  "i < length xs \<Longrightarrow>
   frame_row (get_dummies xs) i = map (\<lambda>k. Some (Bool (xs ! i = Some k))) (categories xs)"
  by (simp add: frame_row_def get_dummies_def comp_def)

lemma count_true_row:
  assumes "i < length xs" "xs ! i = Some c"
  shows "count_value (Bool True) (frame_row (get_dummies xs) i) = 1"
proof -
  have mem: "c \<in> set (categories xs)"
    using assms by (metis mem_Collect_eq nth_mem set_categories)
  have "count_value (Bool True) (frame_row (get_dummies xs) i)
        = length (filter (\<lambda>k. c = k) (categories xs))"
    using assms by (simp add: frame_row_get_dummies count_value_def filter_map comp_def)
  then show ?thesis using filter_eq_distinct_one[OF distinct_categories mem] by simp
qed

lemma entry_get_dummies:
  assumes "i < length xs" "xs ! i = Some c"
  shows "entry (get_dummies xs) c i = Some (Bool True)"
proof -
  have mem: "c \<in> set (categories xs)"
    using assms by (metis mem_Collect_eq nth_mem set_categories)
  have "map_of (get_dummies xs) c = Some (BoolCol (map (\<lambda>x. x = Some c) xs))"
    unfolding get_dummies_def using mem by (rule map_of_tabulate)
  then show ?thesis using assms by (simp add: entry_def col_len_def)
qed

lemma column_sum_get_dummies:
  assumes "(k, x) \<in> set (get_dummies xs)"
  shows "count_value (Bool True) (col_values x) = count_list xs (Some k)"
proof -
  from assms have x: "x = BoolCol (map (\<lambda>v. v = Some k) xs)"
    by (auto simp: get_dummies_def)
  have "(\<lambda>v. v = Some k) = ((=) (Some k))" by auto
  then show ?thesis
    by (simp add: x count_value_def filter_map comp_def count_list_eq_length_filter)
qed

lemma get_dummies_color:
  "get_dummies color_column =
     [(''blue'', BoolCol [False, False, True, False, False]),
      (''green'', BoolCol [False, True, False, True, False]),
      (''red'', BoolCol [True, False, False, False, True])]"
  by (simp add: get_dummies_def color_column_def categories_def)

text \<open>
  Claim C8. In the one-hot encoding output every row has exactly one True entry, in the
  column labelled with the row's category, and the number of True entries of a column is
  the number of occurrences of its category in the input. The rows are those of a
  column whose entries are all present, as the cell's \<open>color\<close> column is; the output of
  the cell is the table the notebook prints.
\<close>

theorem one_hot_one_true_per_row:
  "(i < length xs \<and> xs ! i = Some c \<longrightarrow>
      count_value (Bool True) (frame_row (get_dummies xs) i) = 1 \<and>
      entry (get_dummies xs) c i = Some (Bool True))
   \<and> (\<forall>(k, x) \<in> set (get_dummies xs).
        count_value (Bool True) (col_values x) = count_list xs (Some k))
   \<and> None \<notin> set color_column
   \<and> get_dummies color_column =
       [(''blue'', BoolCol [False, False, True, False, False]),
        (''green'', BoolCol [False, True, False, True, False]),
        (''red'', BoolCol [True, False, False, False, True])]"
proof (intro conjI impI)
  show "\<forall>(k, x) \<in> set (get_dummies xs).
        count_value (Bool True) (col_values x) = count_list xs (Some k)"
    using column_sum_get_dummies by blast
  show "None \<notin> set color_column" by (simp add: color_column_def)
qed (simp_all add: count_true_row entry_get_dummies get_dummies_color)

text \<open>The theorem at row 3 (\<open>green\<close>) of the cell's column.\<close>

theorem one_hot_one_true_per_row_witness:
  "(3::nat) < length color_column \<and> color_column ! 3 = Some ''green'' \<and>
   count_value (Bool True) (frame_row (get_dummies color_column) 3) = 1 \<and>
   entry (get_dummies color_column) ''green'' 3 = Some (Bool True) \<and>
   list_all (\<lambda>(k, x). count_value (Bool True) (col_values x) = count_list color_column (Some k))
     (get_dummies color_column)"
proof -
  have h: "(3::nat) < length color_column \<and> color_column ! 3 = Some ''green''"
    by (simp add: color_column_def)
  with one_hot_one_true_per_row [of 3 color_column "''green''"] show ?thesis
    unfolding list_all_iff by blast
qed

subsection \<open>Target encoding\<close>






















section \<open>Row labels of the notebooks' tables\<close>

lemmas frame_simps = data_frame_def range_index_def n_rows_def col_len_def

lemmas cell_simps = assign_def assign_expr_def print_expr_def assign_column_def
  lookup_frame_def lookup_table_def lookup_def as_frame_def as_table_def bind_e_def
  fit_transform_expr_def fit_transform_def

lemma data_frame_color:
  "data_frame [(''color'', StrCol color_column)]
     = Frame [0, 1, 2, 3, 4] [(''color'', StrCol color_column)]"
  by (simp add: frame_simps color_column_def)

lemma data_frame_target: "data_frame target_frame = Frame [0, 1, 2, 3, 4] target_frame"
  by (simp add: frame_simps target_frame_def)

lemma data_frame_missing: "data_frame missing_frame = Frame [0, 1, 2, 3, 4, 5, 6] missing_frame"
  by (simp add: frame_simps missing_frame_def)

section \<open>Properties of the imputation cells\<close>

lemma map_of_setitem: "map_of (setitem df c x) = (map_of df)(c \<mapsto> x)"
  by (induction df c x rule: setitem.induct) auto

lemma preserved_refl: "preserved df df"
  by (simp add: preserved_def)

lemma preserved_trans: "preserved a b \<Longrightarrow> preserved b c \<Longrightarrow> preserved a c"
  by (simp add: preserved_def)

lemma preserved_setitem:
  assumes "\<And>x. map_of df c = Some x \<Longrightarrow> preserves_col x y"
  shows "preserved df (setitem df c y)"
  unfolding preserved_def
proof (intro allI impI)
  fix c' i v
  assume e: "entry df c' i = Some v"
  show "entry (setitem df c y) c' i = Some v"
  proof (cases "c' = c")
    case True
    from e True obtain x where x: "map_of df c = Some x" "i < col_len x" "col_values x ! i = Some v"
      by (auto simp: entry_def split: option.splits if_splits)
    then have "i < col_len y \<and> col_values y ! i = Some v"
      using assms[OF x(1)] by (simp add: preserves_col_def)
    then show ?thesis using True by (simp add: entry_def map_of_setitem)
  next
    case False
    then show ?thesis using e by (simp add: entry_def map_of_setitem)
  qed
qed

lemma fillna_keeps: "i < length xs \<Longrightarrow> xs ! i = Some v \<Longrightarrow> fillna xs w ! i = Some v"
  by (simp add: fillna_def)

lemma fill_with_mean_preserves: "fill_with_mean x = Inr y \<Longrightarrow> preserves_col x y"
  by (cases x) (auto simp: preserves_col_def col_len_def fillna_def)

lemma fill_with_mode_preserves: "fill_with_mode x = Inr y \<Longrightarrow> preserves_col x y"
  by (cases x) (auto simp: preserves_col_def col_len_def fillna_def bind_e_def split: sum.splits)

text \<open>One statement \<open>df[c] = df[c].fillna(...)\<close>.\<close>

lemma fill_statement:
  assumes df: "ns ''df'' = Some (Frame idx df)"
      and fill: "\<And>x y. fill x = Inr y \<Longrightarrow> preserves_col x y"
  shows "(\<exists>e. assign_column ''df'' c
                (\<lambda>ns. bind_e (lookup_frame ns ''df'') (\<lambda>d. bind_e (getitem d c) fill)) ns = Inl e)
       \<or> (\<exists>df'. assign_column ''df'' c
                (\<lambda>ns. bind_e (lookup_frame ns ''df'') (\<lambda>d. bind_e (getitem d c) fill)) ns
                  = Inr ([], ns(''df'' \<mapsto> Frame idx df')) \<and> preserved df df')"
proof (cases "getitem df c")
  case (Inl e)
  then show ?thesis using df
    by (simp add: assign_column_def lookup_frame_def lookup_table_def lookup_def as_frame_def
        as_table_def bind_e_def)
next
  case (Inr x)
  then have m: "map_of df c = Some x" by (auto simp: getitem_def split: option.splits)
  show ?thesis
  proof (cases "fill x")
    case (Inl e)
    then show ?thesis using df Inr
      by (simp add: assign_column_def lookup_frame_def lookup_table_def lookup_def as_frame_def
          as_table_def bind_e_def)
  next
    case y: (Inr y)
    have "preserved df (setitem df c y)"
      using m fill[OF y] by (intro preserved_setitem) simp
    moreover have "assign_column ''df'' c
                (\<lambda>ns. bind_e (lookup_frame ns ''df'') (\<lambda>d. bind_e (getitem d c) fill)) ns
                  = Inr ([], ns(''df'' \<mapsto> Frame idx (setitem df c y)))"
      using df Inr y
      by (simp add: assign_column_def lookup_frame_def lookup_table_def lookup_def as_frame_def
          as_table_def bind_e_def)
    ultimately show ?thesis by blast
  qed
qed

lemma simple_imputation_preserved:
  assumes df: "ns ''df'' = Some (Frame idx df)"
  shows "\<exists>df'. bindings (simple_imputation_cell ns) ''df'' = Some (Frame idx df') \<and> preserved df df'"
proof -
  let ?s1 = "assign_column ''df'' ''Age'' fill_age_expr"
  let ?s2 = "assign_column ''df'' ''Gender'' fill_gender_expr"
  have cell: "simple_imputation_cell ns = run_stmts [?s1, ?s2] ns"
    by (simp add: simple_imputation_cell_def)
  have s1: "(\<exists>e. ?s1 ns = Inl e) \<or>
            (\<exists>df'. ?s1 ns = Inr ([], ns(''df'' \<mapsto> Frame idx df')) \<and> preserved df df')"
    unfolding fill_age_expr_def using df fill_with_mean_preserves by (rule fill_statement)
  then show ?thesis
  proof
    assume "\<exists>e. ?s1 ns = Inl e"
    then show ?thesis using df cell by (auto simp: bindings_def preserved_refl)
  next
    assume "\<exists>df'. ?s1 ns = Inr ([], ns(''df'' \<mapsto> Frame idx df')) \<and> preserved df df'"
    then obtain df1 where r1: "?s1 ns = Inr ([], ns(''df'' \<mapsto> Frame idx df1))"
      and p1: "preserved df df1" by blast
    let ?ns1 = "ns(''df'' \<mapsto> Frame idx df1)"
    have df1: "?ns1 ''df'' = Some (Frame idx df1)" by simp
    have s2: "(\<exists>e. ?s2 ?ns1 = Inl e) \<or>
            (\<exists>df'. ?s2 ?ns1 = Inr ([], ?ns1(''df'' \<mapsto> Frame idx df')) \<and> preserved df1 df')"
      unfolding fill_gender_expr_def using df1 fill_with_mode_preserves by (rule fill_statement)
    then show ?thesis
    proof
      assume "\<exists>e. ?s2 ?ns1 = Inl e"
      then show ?thesis using r1 p1 cell by (auto simp: bindings_def)
    next
      assume "\<exists>df'. ?s2 ?ns1 = Inr ([], ?ns1(''df'' \<mapsto> Frame idx df')) \<and> preserved df1 df'"
      then obtain df2 where r2: "?s2 ?ns1 = Inr ([], ?ns1(''df'' \<mapsto> Frame idx df2))"
        and p2: "preserved df1 df2" by blast
      have "preserved df df2" using p1 p2 by (rule preserved_trans)
      then show ?thesis using r1 r2 cell by (auto simp: bindings_def)
    qed
  qed
qed

text \<open>The KNN cell.\<close>

lemma select_columns_nth:
  "select_columns df cs = Inr d \<Longrightarrow>
   length d = length cs \<and> (\<forall>j<length cs. \<exists>x. d ! j = (cs ! j, x) \<and> map_of df (cs ! j) = Some x)"
proof (induction cs arbitrary: d)
  case Nil
  then show ?case by simp
next
  case (Cons c cs)
  from Cons.prems obtain x rest where x: "getitem df c = Inr x"
    and rest: "select_columns df cs = Inr rest" and d: "d = (c, x) # rest"
    by (auto simp: bind_e_def split: sum.splits)
  have m: "map_of df c = Some x" using x by (auto simp: getitem_def split: option.splits)
  from Cons.IH[OF rest] have ih: "length rest = length cs"
    "\<forall>j<length cs. \<exists>x. rest ! j = (cs ! j, x) \<and> map_of df (cs ! j) = Some x" by auto
  show ?case
  proof (intro conjI allI impI)
    show "length d = length (c # cs)" using d ih(1) by simp
    fix j assume "j < length (c # cs)"
    then show "\<exists>x. d ! j = ((c # cs) ! j, x) \<and> map_of df ((c # cs) ! j) = Some x"
      using d m ih(2) by (cases j) auto
  qed
qed

lemma to_numeric_columns_nth:
  "to_numeric_columns d = Inr X \<Longrightarrow>
   length X = length d \<and> (\<forall>j<length d. numeric_values (snd (d ! j)) = Inr (X ! j))"
proof (induction d arbitrary: X rule: to_numeric_columns.induct)
  case 1
  then show ?case by simp
next
  case (2 c x df)
  from "2.prems" obtain xs rest where xs: "numeric_values x = Inr xs"
    and rest: "to_numeric_columns df = Inr rest" and X: "X = xs # rest"
    by (auto simp: bind_e_def split: sum.splits)
  from "2.IH"[OF rest] have ih: "length rest = length df"
    "\<forall>j<length df. numeric_values (snd (df ! j)) = Inr (rest ! j)" by auto
  show ?case
  proof (intro conjI allI impI)
    show "length X = length ((c, x) # df)" using X ih(1) by simp
    fix j assume "j < length ((c, x) # df)"
    then show "numeric_values (snd (((c, x) # df) ! j)) = Inr (X ! j)"
      using X xs ih(2) by (cases j) auto
  qed
qed

lemma select_numeric_is_numeric:
  assumes "distinct (map fst df)" "c \<in> set (select_numeric df)"
  shows "\<exists>xs. map_of df c = Some (NumCol xs)"
proof -
  from assms(2) obtain x where mem: "(c, x) \<in> set df" and num: "is_numeric x"
    by (auto simp: select_numeric_def)
  from mem assms(1) have "map_of df c = Some x" by simp
  moreover from num obtain xs where "x = NumCol xs" by (cases x) auto
  ultimately show ?thesis by simp
qed

lemma distinct_select_numeric: "distinct (map fst df) \<Longrightarrow> distinct (select_numeric df)"
  unfolding select_numeric_def by (rule distinct_map_filter)

lemma filter_all_of_length:
  assumes "length (filter P xs) = length xs"
  shows "filter P xs = xs"
proof -
  have "length (filter P xs) + length (filter (\<lambda>x. \<not> P x) xs) = length xs"
    by (rule sum_length_filter_compl)
  then have "filter (\<lambda>x. \<not> P x) xs = []" using assms by simp
  then have "\<forall>x\<in>set xs. P x" by (simp add: filter_empty_conv)
  then show ?thesis by simp
qed

lemma knn_impute_nth:
  assumes "knn_impute nb X = Inr A" "length A = length X" "j < length X"
  shows "A ! j = map (\<lambda>i. case X ! j ! i of None \<Rightarrow> nb X i j | Some v \<Rightarrow> v) [0..<length (X ! j)]"
proof -
  let ?P = "\<lambda>j. list_ex (\<lambda>v. v \<noteq> None) (X ! j)"
  let ?f = "\<lambda>j. map (\<lambda>i. case X ! j ! i of None \<Rightarrow> nb X i j | Some v \<Rightarrow> v) [0..<length (X ! j)]"
  from assms(1) have A: "A = map ?f (filter ?P [0..<length X])"
    by (auto simp: knn_impute_def split: if_splits)
  then have "length (filter ?P [0..<length X]) = length [0..<length X]"
    using assms(2) by simp
  then have "filter ?P [0..<length X] = [0..<length X]" by (rule filter_all_of_length)
  then have "A = map ?f [0..<length X]" using A by simp
  then have "A ! j = ?f ([0..<length X] ! j)" using assms(3) by simp
  moreover have "[0..<length X] ! j = j" using assms(3) by simp
  ultimately show ?thesis by (simp only:)
qed

lemma knn_fill_preserves:
  "preserves_col (NumCol xs)
     (NumCol (map Some (map (\<lambda>i. case xs ! i of None \<Rightarrow> w i | Some v \<Rightarrow> v) [0..<length xs])))"
  by (auto simp: preserves_col_def col_len_def)

text \<open>The conversion leaves an array of \<open>float64\<close> values as it is.\<close>

lemma map_option_fixed:
  assumes "\<And>v. Some v \<in> set xs \<Longrightarrow> f v = v"
  shows "map (map_option f) xs = xs"
proof (rule map_idI)
  fix x assume x: "x \<in> set xs"
  show "map_option f x = x"
  proof (cases x)
    case None
    then show ?thesis by simp
  next
    case (Some v)
    with x assms show ?thesis by simp
  qed
qed

lemma as_float_array_exact:
  assumes "\<And>xs v. xs \<in> set X \<Longrightarrow> Some v \<in> set xs \<Longrightarrow> to_float64 v = v"
  shows "as_float_array X = X"
  unfolding as_float_array_def
proof (rule map_idI)
  fix xs assume "xs \<in> set X"
  then show "map (map_option to_float64) xs = xs"
    using assms by (intro map_option_fixed) blast
qed

lemma set_dropna_values_iff: "v \<in> set (dropna_values xs) \<longleftrightarrow> Some v \<in> set xs"
  by (induction xs rule: dropna_values.induct) auto

lemma float64_entries_col:
  assumes "float64_entries df" "map_of df c = Some (NumCol xs)" "Some v \<in> set xs"
  shows "to_float64 v = v"
proof -
  from assms(2) have "(c, NumCol xs) \<in> set df" by (rule map_of_SomeD)
  with assms(1) have "list_all (\<lambda>v. to_float64 v = v) (dropna_values xs)"
    unfolding float64_entries_def list_all_iff by fastforce
  with assms(3) show ?thesis by (simp add: list_all_iff set_dropna_values_iff)
qed

text \<open>Assigning columns that have the labels of the table.\<close>

lemma set_columns_preserved:
  assumes "oidx = idx" "distinct cs" "length cs = length other"
      and "\<forall>j<length cs. \<forall>x. map_of df (cs ! j) = Some x \<longrightarrow> preserves_col x (snd (other ! j))"
  shows "\<exists>df'. set_columns idx df cs oidx other = Inr df' \<and> preserved df df'"
  using assms
proof (induction idx df cs oidx other rule: set_columns.induct)
  case (1 idx df c cs oidx k x other)
  have r: "reindex_for_setitem oidx x idx = Inr x"
    using "1.prems"(1) by (simp add: reindex_for_setitem_def)
  have p1: "preserved df (setitem df c x)"
  proof (rule preserved_setitem)
    fix y assume "map_of df c = Some y"
    then show "preserves_col y x" using "1.prems"(4) by fastforce
  qed
  have "\<exists>df'. set_columns idx (setitem df c x) cs oidx other = Inr df' \<and>
             preserved (setitem df c x) df'"
  proof (rule "1.IH")
    show "oidx = idx" by (rule "1.prems"(1))
    show "distinct cs" using "1.prems"(2) by simp
    show "length cs = length other" using "1.prems"(3) by simp
    show "\<forall>j<length cs. \<forall>y. map_of (setitem df c x) (cs ! j) = Some y \<longrightarrow>
            preserves_col y (snd (other ! j))"
    proof (intro allI impI)
      fix j y assume j: "j < length cs" and m: "map_of (setitem df c x) (cs ! j) = Some y"
      have "cs ! j \<noteq> c" using "1.prems"(2) j by auto
      then have "map_of df (cs ! j) = Some y" using m by (simp add: map_of_setitem)
      then have "map_of df ((c # cs) ! Suc j) = Some y" by simp
      moreover have "Suc j < length (c # cs)" using j by simp
      ultimately have "preserves_col y (snd (((k, x) # other) ! Suc j))"
        using "1.prems"(4) by blast
      then show "preserves_col y (snd (other ! j))" by simp
    qed
  qed
  then obtain df' where "set_columns idx (setitem df c x) cs oidx other = Inr df'"
    and "preserved (setitem df c x) df'" by blast
  with p1 r show ?case by (auto simp: bind_e_def intro: preserved_trans)
qed (simp_all add: preserved_refl)

text \<open>
  What the imputer returns for the numeric columns of a table of \<open>float64\<close> values: the
  columns keep their entries, and the new table has the labels \<open>0, ..., n - 1\<close>.
\<close>

lemma knn_columns:
  assumes dist: "distinct (map fst df)" and fl: "float64_entries df"
      and rows: "rows_labelled idx df"
      and sel: "select_columns df (select_numeric df) = Inr dnum"
      and num: "to_numeric_columns dnum = Inr X"
      and knn: "knn_fit_transform nb X = Inr A"
      and frm: "frame_from_array A (select_numeric df) = Inr (Frame oidx d)"
  shows "oidx = range_index (length idx) \<and> length (select_numeric df) = length d \<and>
         (\<forall>j<length (select_numeric df). \<forall>x. map_of df (select_numeric df ! j) = Some x \<longrightarrow>
             preserves_col x (snd (d ! j)))"
proof -
  let ?cs = "select_numeric df"
  from frm have lenA: "length A = length ?cs"
    and d: "d = map (\<lambda>(c, xs). (c, NumCol (map Some xs))) (zip ?cs A)"
    and oidx: "oidx = range_index (n_rows d)"
    by (auto simp: frame_from_array_def data_frame_def split: if_splits)
  from select_columns_nth[OF sel] have lend: "length dnum = length ?cs"
    and dn: "\<forall>j<length ?cs. \<exists>x. dnum ! j = (?cs ! j, x) \<and> map_of df (?cs ! j) = Some x" by auto
  from to_numeric_columns_nth[OF num] have lenX: "length X = length dnum"
    and Xn: "\<forall>j<length dnum. numeric_values (snd (dnum ! j)) = Inr (X ! j)" by auto
  have col: "map_of df (?cs ! j) = Some (NumCol (X ! j))" if j: "j < length ?cs" for j
  proof -
    from dn j obtain x where x: "dnum ! j = (?cs ! j, x)" "map_of df (?cs ! j) = Some x" by blast
    from select_numeric_is_numeric[OF dist, of "?cs ! j"] j x(2)
    obtain xs where xs: "x = NumCol xs" by auto
    from x(1) have "numeric_values x = Inr (X ! j)" using Xn j lend by (metis snd_conv)
    then show ?thesis using x(2) xs by simp
  qed
  have "as_float_array X = X"
  proof (rule as_float_array_exact)
    fix xs v assume "xs \<in> set X" and v: "Some v \<in> set xs"
    then obtain j where j: "j < length X" and xs: "xs = X ! j" by (auto simp: in_set_conv_nth)
    from j have "map_of df (?cs ! j) = Some (NumCol xs)" using col lenX lend xs by simp
    with fl show "to_float64 v = v" using v by (rule float64_entries_col)
  qed
  with knn have imp: "knn_impute nb X = Inr A" by (simp add: knn_fit_transform_def)
  have Aj: "A ! j = map (\<lambda>i. case X ! j ! i of None \<Rightarrow> nb X i j | Some v \<Rightarrow> v) [0..<length (X ! j)]"
    if "j < length ?cs" for j
    using imp by (rule knn_impute_nth) (use lenA lenX lend that in simp_all)
  have lenXj: "length (X ! j) = length idx" if j: "j < length ?cs" for j
  proof -
    from col[OF j] have "(?cs ! j, NumCol (X ! j)) \<in> set df" by (rule map_of_SomeD)
    with rows have "col_len (NumCol (X ! j)) = length idx"
      unfolding rows_labelled_def list_all_iff by fastforce
    then show ?thesis by (simp add: col_len_def)
  qed
  from imp have "X \<noteq> []" by (auto simp: knn_impute_def split: if_splits)
  then have ne: "0 < length ?cs" using lenX lend by (cases X) auto
  then have "d \<noteq> []" using d lenA by (cases ?cs; cases A) auto
  then have "n_rows d = col_len (snd (d ! 0))"
    by (cases d) (auto simp: n_rows_def)
  also have "snd (d ! 0) = NumCol (map Some (A ! 0))" using d ne lenA by simp
  also have "col_len (NumCol (map Some (A ! 0))) = length (A ! 0)" by (simp add: col_len_def)
  also have "length (A ! 0) = length idx" using Aj[OF ne] lenXj[OF ne] by simp
  finally have rows_d: "n_rows d = length idx" .
  have pres: "\<forall>j<length ?cs. \<forall>x. map_of df (?cs ! j) = Some x \<longrightarrow> preserves_col x (snd (d ! j))"
  proof (intro allI impI)
    fix j x assume j: "j < length ?cs" and m: "map_of df (?cs ! j) = Some x"
    from col[OF j] m have x: "x = NumCol (X ! j)" by simp
    have "snd (d ! j) =
        NumCol (map Some (map (\<lambda>i. case X ! j ! i of None \<Rightarrow> nb X i j | Some v \<Rightarrow> v)
                            [0..<length (X ! j)]))"
      using d j lenA Aj[OF j] by simp
    then show "preserves_col x (snd (d ! j))"
      unfolding x by (simp only: knn_fill_preserves)
  qed
  show ?thesis using oidx rows_d d lenA pres by simp
qed

lemma knn_cell_df:
  assumes "ns ''df'' = Some (Frame idx df)"
  shows "bindings (knn_cell nb ns) ''df'' = Some (Frame idx df)
       \<or> (\<exists>dnum X A oidx d df'. select_columns df (select_numeric df) = Inr dnum \<and>
             to_numeric_columns dnum = Inr X \<and> knn_fit_transform nb X = Inr A \<and>
             frame_from_array A (select_numeric df) = Inr (Frame oidx d) \<and>
             set_columns idx df (select_numeric df) oidx d = Inr df' \<and>
             bindings (knn_cell nb ns) ''df'' = Some (Frame idx df'))"
  using assms
  by (auto simp: knn_cell_def assign_def assign_expr_def assign_num_cols_def df_num_imputed_expr_def
      lookup_frame_def lookup_table_def lookup_def as_frame_def as_table_def bind_e_def bindings_def
      split: sum.splits option.splits pyval.splits)

lemma knn_cell_preserved:
  assumes df: "ns ''df'' = Some (Frame idx df)" and dist: "distinct (map fst df)"
      and rows: "rows_labelled idx df" and idx: "idx = range_index (length idx)"
      and fl: "float64_entries df"
  shows "\<exists>df'. bindings (knn_cell nb ns) ''df'' = Some (Frame idx df') \<and> preserved df df'"
  using knn_cell_df[of ns idx df nb, OF df]
proof
  assume "bindings (knn_cell nb ns) ''df'' = Some (Frame idx df)"
  then show ?thesis using preserved_refl by blast
next
  assume "\<exists>dnum X A oidx d df'. select_columns df (select_numeric df) = Inr dnum \<and>
             to_numeric_columns dnum = Inr X \<and> knn_fit_transform nb X = Inr A \<and>
             frame_from_array A (select_numeric df) = Inr (Frame oidx d) \<and>
             set_columns idx df (select_numeric df) oidx d = Inr df' \<and>
             bindings (knn_cell nb ns) ''df'' = Some (Frame idx df')"
  then obtain dnum X A oidx d df' where
    sel: "select_columns df (select_numeric df) = Inr dnum" and
    num: "to_numeric_columns dnum = Inr X" and knn: "knn_fit_transform nb X = Inr A" and
    frm: "frame_from_array A (select_numeric df) = Inr (Frame oidx d)" and
    set: "set_columns idx df (select_numeric df) oidx d = Inr df'" and
    res: "bindings (knn_cell nb ns) ''df'' = Some (Frame idx df')" by blast
  from knn_columns[OF dist fl rows sel num knn frm]
  have o: "oidx = idx" and len: "length (select_numeric df) = length d"
    and pres: "\<forall>j<length (select_numeric df). \<forall>x. map_of df (select_numeric df ! j) = Some x \<longrightarrow>
             preserves_col x (snd (d ! j))"
    using idx by simp_all
  from set_columns_preserved[OF o distinct_select_numeric[OF dist] len pres]
  have "preserved df df'" using set by auto
  with res show ?thesis by blast
qed

text \<open>
  Claim C10 (as amended). Imputation only fills holes in a table whose rows have the
  default labels and whose numbers are \<open>float64\<close> values. For every table bound to \<open>df\<close>
  (distinct column names, one entry in each column for each row label), whatever the
  namespace holds besides, each entry that is present before the simple-imputation cell
  is run is the same entry after it, whatever the row labels, and whether the cell
  completes or raises. The same holds for the KNN-imputation cell when the rows are
  labelled \<open>0, ..., n - 1\<close> (as \<open>pd.DataFrame\<close> labels them) and every numeric entry is a
  \<open>float64\<close> value; the values the imputer computes are arbitrary (\<open>nb\<close>). Both cells
  keep the row labels.
\<close>

theorem imputation_only_fills_holes:
  "ns ''df'' = Some (Frame idx df) \<and> distinct (map fst df) \<and> rows_labelled idx df \<and>
   entry df c i = Some v \<longrightarrow>
     (\<exists>df'. bindings (simple_imputation_cell ns) ''df'' = Some (Frame idx df') \<and>
            entry df' c i = Some v) \<and>
     (idx = range_index (length idx) \<and> float64_entries df \<longrightarrow>
        (\<exists>df'. bindings (knn_cell nb ns) ''df'' = Some (Frame idx df') \<and>
               entry df' c i = Some v))"
proof (intro impI conjI; elim conjE)
  assume df: "ns ''df'' = Some (Frame idx df)" and e: "entry df c i = Some v"
  from simple_imputation_preserved[of ns idx df, OF df] obtain d1
    where d1: "bindings (simple_imputation_cell ns) ''df'' = Some (Frame idx d1)" "preserved df d1"
    by blast
  from d1(2) e have "entry d1 c i = Some v" by (simp add: preserved_def)
  with d1(1) show "\<exists>df'. bindings (simple_imputation_cell ns) ''df'' = Some (Frame idx df') \<and>
            entry df' c i = Some v" by blast
next
  assume df: "ns ''df'' = Some (Frame idx df)" and e: "entry df c i = Some v"
    and dist: "distinct (map fst df)" and rows: "rows_labelled idx df"
    and idx: "idx = range_index (length idx)" and fl: "float64_entries df"
  from knn_cell_preserved[of ns idx df nb, OF df dist rows idx fl] obtain d2
    where d2: "bindings (knn_cell nb ns) ''df'' = Some (Frame idx d2)" "preserved df d2"
    by blast
  from d2(2) e have "entry d2 c i = Some v" by (simp add: preserved_def)
  with d2(1) show "\<exists>df'. bindings (knn_cell nb ns) ''df'' = Some (Frame idx df') \<and>
               entry df' c i = Some v" by blast
qed

text \<open>The cell on the notebook's table, with \<open>pd\<close> imported: it runs to its end.\<close>

lemma missing_frame_floats: "float64_entries missing_frame"
  by code_simp

lemma missing_floats:
  "as_float_array
     [[Some 25, Some 30, None, Some 22, Some 28, None, Some 35],
      [Some 50000, Some 60000, Some 55000, Some 52000, None, Some 58000, Some 60000]]
   = [[Some 25, Some 30, None, Some 22, Some 28, None, Some 35],
      [Some 50000, Some 60000, Some 55000, Some 52000, None, Some 58000, Some 60000]]"
  by code_simp

lemma knn_missing_raised:
  "raised (knn_cell nb [''pd'' \<mapsto> Imported ''pandas'',
                        ''df'' \<mapsto> Frame [0, 1, 2, 3, 4, 5, 6] missing_frame]) = None"
  by (simp add: knn_cell_def df_num_imputed_expr_def assign_num_cols_def cell_simps getitem_def
      missing_frame_def select_numeric_def knn_fit_transform_def knn_impute_def
      missing_floats frame_from_array_def frame_simps reindex_for_setitem_def raised_def)

text \<open>The theorem at the notebook's table, for the income of row 3.\<close>

theorem imputation_only_fills_holes_witness:
  "distinct (map fst missing_frame)
   \<and> rows_labelled [0, 1, 2, 3, 4, 5, 6] missing_frame
   \<and> [0, 1, 2, 3, 4, 5, 6] = range_index (length [0, 1, 2, 3, 4, 5, 6 :: int])
   \<and> float64_entries missing_frame
   \<and> entry missing_frame ''Income'' 3 = Some (Num 52000)
   \<and> raised (knn_cell (\<lambda>X i j. 0) [''pd'' \<mapsto> Imported ''pandas'',
                ''df'' \<mapsto> Frame [0, 1, 2, 3, 4, 5, 6] missing_frame]) = None
   \<and> (\<exists>df'. bindings (simple_imputation_cell [''pd'' \<mapsto> Imported ''pandas'',
                ''df'' \<mapsto> Frame [0, 1, 2, 3, 4, 5, 6] missing_frame]) ''df''
               = Some (Frame [0, 1, 2, 3, 4, 5, 6] df') \<and>
             entry df' ''Income'' 3 = Some (Num 52000))
   \<and> (\<exists>df'. bindings (knn_cell (\<lambda>X i j. 0) [''pd'' \<mapsto> Imported ''pandas'',
                ''df'' \<mapsto> Frame [0, 1, 2, 3, 4, 5, 6] missing_frame]) ''df''
               = Some (Frame [0, 1, 2, 3, 4, 5, 6] df') \<and>
             entry df' ''Income'' 3 = Some (Num 52000))"
proof -
  let ?ns = "[''pd'' \<mapsto> Imported ''pandas'', ''df'' \<mapsto> Frame [0, 1, 2, 3, 4, 5, 6] missing_frame]"
  have h: "?ns ''df'' = Some (Frame [0, 1, 2, 3, 4, 5, 6] missing_frame)"
    "entry missing_frame ''Income'' 3 = Some (Num 52000)"
    "distinct (map fst missing_frame)"
    "rows_labelled [0, 1, 2, 3, 4, 5, 6] missing_frame"
    "[0, 1, 2, 3, 4, 5, 6] = range_index (length [0, 1, 2, 3, 4, 5, 6 :: int])"
    by (simp_all add: missing_frame_def entry_def col_len_def rows_labelled_def range_index_def)
  from imputation_only_fills_holes
    [of ?ns "[0, 1, 2, 3, 4, 5, 6]" missing_frame "''Income''" 3 "Num 52000" "\<lambda>X i j. 0"]
    h missing_frame_floats knn_missing_raised[of "\<lambda>X i j. 0"]
  show ?thesis by blast
qed

text \<open>The cell on a table with other row labels, and on one with a large \<open>int64\<close> entry.\<close>

lemma relabelled_floats:
  "as_float_array [[None, Some 30, Some 22], [Some 60000, Some 55000, Some 52000]]
   = [[None, Some 30, Some 22], [Some 60000, Some 55000, Some 52000]]"
  by code_simp

lemma knn_relabelled:
  "raised (knn_cell nb [''pd'' \<mapsto> Imported ''pandas'',
                        ''df'' \<mapsto> Frame [1, 2, 3] relabelled_frame]) = None
   \<and> bindings (knn_cell nb [''pd'' \<mapsto> Imported ''pandas'',
                            ''df'' \<mapsto> Frame [1, 2, 3] relabelled_frame]) ''df''
       = Some (Frame [1, 2, 3]
                 [(''Age'', NumCol [Some 30, Some 22, None]),
                  (''Income'', NumCol [Some 55000, Some 52000, None])])"
  by (simp add: knn_cell_def df_num_imputed_expr_def assign_num_cols_def cell_simps getitem_def
      relabelled_frame_def select_numeric_def knn_fit_transform_def knn_impute_def
      relabelled_floats frame_from_array_def frame_simps reindex_for_setitem_def
      label_positions_def take_labelled_def raised_def bindings_def)

lemma large_income_floats:
  "as_float_array [[Some 9007199254740993, Some 50000]]
   = [[Some 9007199254740992, Some 50000]]"
  by code_simp

lemma knn_large_income:
  "raised (knn_cell nb [''pd'' \<mapsto> Imported ''pandas'',
                        ''df'' \<mapsto> Frame [0, 1] large_income_frame]) = None
   \<and> bindings (knn_cell nb [''pd'' \<mapsto> Imported ''pandas'',
                            ''df'' \<mapsto> Frame [0, 1] large_income_frame]) ''df''
       = Some (Frame [0, 1] [(''Income'', NumCol [Some 9007199254740992, Some 50000])])"
  by (simp add: knn_cell_def df_num_imputed_expr_def assign_num_cols_def cell_simps getitem_def
      large_income_frame_def select_numeric_def knn_fit_transform_def knn_impute_def
      large_income_floats frame_from_array_def frame_simps reindex_for_setitem_def
      raised_def bindings_def)

text \<open>
  The claim as stated, for every input table, fails for the KNN-imputation cell. On a
  table whose rows are labelled 1, 2, 3 the new columns, labelled 0, 1, 2, are aligned
  on the labels: the income 60000 of the first row becomes 55000 and the age 22 and the
  income 52000 of the last row become missing. On a table with the \<open>int64\<close> income
  \<open>2^53 + 1\<close> the imputer's array holds the \<open>float64\<close> value \<open>2^53\<close>, which the cell writes
  back. The values the imputer computes play no part in either.
\<close>

theorem knn_imputation_changes_entries_counterexample:
  "entry relabelled_frame ''Income'' 0 = Some (Num 60000)
   \<and> entry relabelled_frame ''Age'' 2 = Some (Num 22)
   \<and> entry relabelled_frame ''Income'' 2 = Some (Num 52000)
   \<and> (\<forall>nb. raised (knn_cell nb [''pd'' \<mapsto> Imported ''pandas'',
                                 ''df'' \<mapsto> Frame [1, 2, 3] relabelled_frame]) = None)
   \<and> (\<forall>nb. bindings (knn_cell nb [''pd'' \<mapsto> Imported ''pandas'',
                                   ''df'' \<mapsto> Frame [1, 2, 3] relabelled_frame]) ''df''
             = Some (Frame [1, 2, 3]
                       [(''Age'', NumCol [Some 30, Some 22, None]),
                        (''Income'', NumCol [Some 55000, Some 52000, None])]))
   \<and> entry large_income_frame ''Income'' 0 = Some (Num 9007199254740993)
   \<and> (\<forall>nb. raised (knn_cell nb [''pd'' \<mapsto> Imported ''pandas'',
                                 ''df'' \<mapsto> Frame [0, 1] large_income_frame]) = None)
   \<and> (\<forall>nb. bindings (knn_cell nb [''pd'' \<mapsto> Imported ''pandas'',
                                   ''df'' \<mapsto> Frame [0, 1] large_income_frame]) ''df''
             = Some (Frame [0, 1] [(''Income'', NumCol [Some 9007199254740992, Some 50000])]))"
proof -
  have e: "entry relabelled_frame ''Income'' 0 = Some (Num 60000)"
    "entry relabelled_frame ''Age'' 2 = Some (Num 22)"
    "entry relabelled_frame ''Income'' 2 = Some (Num 52000)"
    "entry large_income_frame ''Income'' 0 = Some (Num 9007199254740993)"
    by (simp_all add: entry_def relabelled_frame_def large_income_frame_def col_len_def)
  from e knn_relabelled knn_large_income show ?thesis by blast
qed


section \<open>Properties of the cyclical encoding\<close>

lemma hour_sin_eq: "hour_sin hs = Inr (map (\<lambda>h. sin (2 * pi * real_of_int h / 24)) hs)"
  by (simp add: hour_sin_def hour_angles_def true_divide_def bind_e_def comp_def)

lemma hour_cos_eq: "hour_cos hs = Inr (map (\<lambda>h. cos (2 * pi * real_of_int h / 24)) hs)"
  by (simp add: hour_cos_def hour_angles_def true_divide_def bind_e_def comp_def)

lemma hour_angle_shift:
  "2 * pi * real_of_int (h + 24) / 24 = 2 * pi * real_of_int h / 24 + 2 * pi"
  by (simp add: field_simps)

lemma hour_angle_inj:
  assumes s: "sin (2 * pi * real_of_int h / 24) = sin (2 * pi * real_of_int h' / 24)"
      and c: "cos (2 * pi * real_of_int h / 24) = cos (2 * pi * real_of_int h' / 24)"
      and b: "0 \<le> h" "h < 24" "0 \<le> h'" "h' < 24"
  shows "h = h'"
proof -
  from s c obtain k :: int
    where k: "2 * pi * real_of_int h / 24 = 2 * pi * real_of_int h' / 24 + 2 * pi * real_of_int k"
    using sin_cos_eq_iff[of "2 * pi * real_of_int h / 24" "2 * pi * real_of_int h' / 24"] by blast
  have "2 * pi * (real_of_int h / 24) = 2 * pi * (real_of_int h' / 24 + real_of_int k)"
    using k by (simp add: algebra_simps)
  then have "real_of_int h / 24 = real_of_int h' / 24 + real_of_int k"
    using pi_gt_zero by simp
  then have "real_of_int h = real_of_int (h' + 24 * k)" by (simp add: field_simps)
  then have "h = h' + 24 * k" by (simp only: of_int_eq_iff)
  then show ?thesis using b by presburger
qed

text \<open>
  Claim C6. Cyclical encoding represents the hour of day by a sine/cosine pair: for
  every list of integer hours the two expressions of the cell return
  \<open>sin (2 * pi * h / 24)\<close> and \<open>cos (2 * pi * h / 24)\<close> of each hour \<open>h\<close>, over the reals;
  the pair of an hour lies on the unit circle; \<open>h\<close> and \<open>h + 24\<close> have the same encoding;
  two distinct hours between 0 and 23 have distinct encodings.
\<close>

theorem cyclical_encoding_unit_circle:
  "hour_sin hs = Inr (map (\<lambda>h. sin (2 * pi * real_of_int h / 24)) hs)
   \<and> hour_cos hs = Inr (map (\<lambda>h. cos (2 * pi * real_of_int h / 24)) hs)
   \<and> (hour_sin [h] = Inr [s] \<and> hour_cos [h] = Inr [c] \<longrightarrow> s\<^sup>2 + c\<^sup>2 = 1)
   \<and> hour_sin [h + 24] = hour_sin [h] \<and> hour_cos [h + 24] = hour_cos [h]
   \<and> (0 \<le> h \<and> h < 24 \<and> 0 \<le> h' \<and> h' < 24 \<and> h \<noteq> h' \<longrightarrow>
        (hour_sin [h], hour_cos [h]) \<noteq> (hour_sin [h'], hour_cos [h']))"
proof (intro conjI impI)
  show "hour_sin hs = Inr (map (\<lambda>h. sin (2 * pi * real_of_int h / 24)) hs)"
    by (rule hour_sin_eq)
  show "hour_cos hs = Inr (map (\<lambda>h. cos (2 * pi * real_of_int h / 24)) hs)"
    by (rule hour_cos_eq)
  show "s\<^sup>2 + c\<^sup>2 = 1" if "hour_sin [h] = Inr [s] \<and> hour_cos [h] = Inr [c]"
    using that by (auto simp: hour_sin_eq hour_cos_eq)
  show "hour_sin [h + 24] = hour_sin [h]"
    unfolding hour_sin_eq by (simp only: list.map hour_angle_shift sin_periodic)
  show "hour_cos [h + 24] = hour_cos [h]"
    unfolding hour_cos_eq by (simp only: list.map hour_angle_shift cos_periodic)
  show "(hour_sin [h], hour_cos [h]) \<noteq> (hour_sin [h'], hour_cos [h'])"
    if "0 \<le> h \<and> h < 24 \<and> 0 \<le> h' \<and> h' < 24 \<and> h \<noteq> h'"
  proof
    assume "(hour_sin [h], hour_cos [h]) = (hour_sin [h'], hour_cos [h'])"
    then have "sin (2 * pi * real_of_int h / 24) = sin (2 * pi * real_of_int h' / 24)"
      and "cos (2 * pi * real_of_int h / 24) = cos (2 * pi * real_of_int h' / 24)"
      by (simp_all add: hour_sin_eq hour_cos_eq)
    then have "h = h'" using that by (intro hour_angle_inj) simp_all
    then show False using that by simp
  qed
qed

text \<open>The theorem at the hours 14 and 9 of the cell's timestamps.\<close>

theorem cyclical_encoding_unit_circle_witness:
  "hour_sin [14] = Inr [sin (2 * pi * 14 / 24)] \<and> hour_cos [14] = Inr [cos (2 * pi * 14 / 24)]
   \<and> (sin (2 * pi * 14 / 24))\<^sup>2 + (cos (2 * pi * 14 / 24))\<^sup>2 = 1
   \<and> (0::int) \<le> 14 \<and> (14::int) < 24 \<and> (0::int) \<le> 9 \<and> (9::int) < 24 \<and> (14::int) \<noteq> 9
   \<and> (hour_sin [14], hour_cos [14]) \<noteq> (hour_sin [9], hour_cos [9])"
proof -
  have e: "hour_sin [14] = Inr [sin (2 * pi * 14 / 24)] \<and> hour_cos [14] = Inr [cos (2 * pi * 14 / 24)]"
    by (simp add: hour_sin_eq hour_cos_eq)
  have b: "(0::int) \<le> 14 \<and> (14::int) < 24 \<and> (0::int) \<le> 9 \<and> (9::int) < 24 \<and> (14::int) \<noteq> 9"
    by simp
  from cyclical_encoding_unit_circle
    [of "[14]" 14 "sin (2 * pi * 14 / 24)" "cos (2 * pi * 14 / 24)" 9] e b
  show ?thesis by blast
qed

section \<open>What a cell reads of the prior notebook state\<close>


lemma agree_mono: "agree R ns ns' \<Longrightarrow> R' \<subseteq> R \<Longrightarrow> agree R' ns ns'"
  by (auto simp: agree_def)




lemma upd_as_add: "ns(x \<mapsto> v) = ns ++ [x \<mapsto> v]"
  by simp













































section \<open>Running the notebooks\<close>

lemma run_all_step:
  "raised (c ns) = None \<Longrightarrow> run_all (c # cs) ns = run_all cs (bindings (c ns))"
  by (cases "c ns") (auto simp: raised_def bindings_def)

lemma label_cell_result:
  "label_cell ns =
     (None, [IntList [2, 1, 0, 1, 2]],
      ns(''LabelEncoder'' \<mapsto> Imported ''sklearn.preprocessing.LabelEncoder'',
         ''data'' \<mapsto> StrList [''red'', ''green'', ''blue'', ''green'', ''red''],
         ''le'' \<mapsto> Estimator LabelEncoder,
         ''encoded'' \<mapsto> IntList [2, 1, 0, 1, 2]))"
  by (simp add: label_cell_def cell_simps label_fit_transform_def)

lemma one_hot_cell_result:
  "one_hot_cell ns =
     (None, [Frame [0, 1, 2, 3, 4] (get_dummies color_column)],
      ns(''pd'' \<mapsto> Imported ''pandas'',
         ''df'' \<mapsto> Frame [0, 1, 2, 3, 4] [(''color'', StrCol color_column)],
         ''one_hot'' \<mapsto> Frame [0, 1, 2, 3, 4] (get_dummies color_column)))"
  by (simp add: one_hot_cell_def one_hot_expr_def cell_simps getitem_def data_frame_color)

lemma ordinal_cell_result:
  "ordinal_cell ns =
     (None, [Array [[0], [1], [2], [1], [0]]],
      ns(''OrdinalEncoder'' \<mapsto> Imported ''sklearn.preprocessing.OrdinalEncoder'',
         ''data'' \<mapsto> StrRows [[''low''], [''medium''], [''high''], [''medium''], [''low'']],
         ''encoder'' \<mapsto> Estimator (OrdinalEncoder [[''low'', ''medium'', ''high'']]),
         ''encoded'' \<mapsto> Array [[0], [1], [2], [1], [0]]))"
  by (simp add: ordinal_cell_def cell_simps ordinal_fit_transform_def ordinal_row_def)

lemma target_cell_result:
  "target_cell ns =
     (None, [Frame [0, 1, 2, 3, 4] target_encoded_frame],
      ns(''pd'' \<mapsto> Imported ''pandas'',
         ''target_means'' \<mapsto> LabelledMeans [(Str ''A'', Some (25/2)), (Str ''B'', Some (45/2)),
                                             (Str ''C'', Some 10)],
         ''df'' \<mapsto> Frame [0, 1, 2, 3, 4] target_encoded_frame))"
  by (simp add: target_cell_def target_encoding_stmts_def target_means_expr_def frame_simps
      category_encoded_expr_def cell_simps getitem_def target_frame_def target_encoded_frame_def
      groupby_mean_def categories_def group_values_def series_mean_def map_series_def
      fun_upd_twist)

lemma freq_cell_after_target:
  "ns ''df'' = Some (Frame idx target_encoded_frame) \<Longrightarrow>
   freq_cell ns =
     (None, [Frame idx freq_encoded_frame],
      ns(''freq'' \<mapsto> LabelledCounts [(Str ''A'', 2), (Str ''B'', 2), (Str ''C'', 1)],
         ''df'' \<mapsto> Frame idx freq_encoded_frame))"
  by (simp add: freq_cell_def freq_expr_def category_freq_expr_def cell_simps getitem_def
      target_encoded_frame_def freq_encoded_frame_def value_counts_def map_series_def
      numeral_2_eq_2)


lemma categorical_encoding_runs:
  "fst (run_all categorical_encoding_nb Map.empty) = None"
proof -
  let ?n1 = "bindings (label_cell Map.empty)"
  let ?n2 = "bindings (one_hot_cell ?n1)"
  let ?n3 = "bindings (ordinal_cell ?n2)"
  let ?n4 = "bindings (target_cell ?n3)"
  have df: "?n4 ''df'' = Some (Frame [0, 1, 2, 3, 4] target_encoded_frame)"
    by (simp add: target_cell_result bindings_def)
  have r5: "raised (freq_cell ?n4) = None"
    using freq_cell_after_target[of ?n4, OF df] by (simp add: raised_def)
  have r1: "raised (label_cell Map.empty) = None" by (simp add: label_cell_result raised_def)
  have r2: "raised (one_hot_cell ?n1) = None" by (simp add: one_hot_cell_result raised_def)
  have r3: "raised (ordinal_cell ?n2) = None" by (simp add: ordinal_cell_result raised_def)
  have r4: "raised (target_cell ?n3) = None" by (simp add: target_cell_result raised_def)
  show ?thesis
    unfolding categorical_encoding_nb_def
    by (simp only: run_all_step[of label_cell Map.empty, OF r1] run_all_step[of one_hot_cell ?n1, OF r2]
        run_all_step[of ordinal_cell ?n2, OF r3] run_all_step[of target_cell ?n3, OF r4]
        run_all_step[of freq_cell ?n4, OF r5] run_all.simps(1) fst_conv)
qed

lemma detect_cell_df:
  "raised (detect_cell ns) = None \<and> bindings (detect_cell ns) ''df'' = Some (Frame [0, 1, 2, 3, 4, 5, 6] missing_frame)
   \<and> bindings (detect_cell ns) ''pd'' = Some (Imported ''pandas'')"
  by (simp add: detect_cell_def frame_from_data_def cell_simps raised_def bindings_def
      data_frame_missing)

lemma dropna_cell_df:
  "ns ''df'' = Some (Frame idx df) \<Longrightarrow>
   raised (dropna_cell ns) = None \<and> bindings (dropna_cell ns) ''df'' = Some (Frame idx df)
   \<and> bindings (dropna_cell ns) ''pd'' = ns ''pd''"
  by (simp add: dropna_cell_def cell_simps raised_def bindings_def)

lemma gender_mode:
  "mode [Some ''Male'', Some ''Female'', Some ''Female'', None, Some ''Male'', Some ''Female'', None]
     = [''Female'']"
  by (simp add: mode_def categories_def)

lemma simple_imputation_literal:
  "ns ''df'' = Some (Frame idx missing_frame) \<Longrightarrow>
   simple_imputation_cell ns = (None, [], ns(''df'' \<mapsto> Frame idx simple_imputed_frame))"
  by (simp add: simple_imputation_cell_def fill_age_expr_def fill_gender_expr_def cell_simps
      getitem_def missing_frame_def simple_imputed_frame_def series_mean_def fillna_def
      gender_mode first_item_def)

lemma simple_imputed_floats:
  "as_float_array
     [[Some 25, Some 30, Some 28, Some 22, Some 28, Some 28, Some 35],
      [Some 50000, Some 60000, Some 55000, Some 52000, None, Some 58000, Some 60000]]
   = [[Some 25, Some 30, Some 28, Some 22, Some 28, Some 28, Some 35],
      [Some 50000, Some 60000, Some 55000, Some 52000, None, Some 58000, Some 60000]]"
  by code_simp

lemma knn_literal:
  "ns ''df'' = Some (Frame [0, 1, 2, 3, 4, 5, 6] simple_imputed_frame) \<Longrightarrow>
   ns ''pd'' = Some (Imported ''pandas'') \<Longrightarrow>
   raised (knn_cell nb ns) = None"
  by (simp add: knn_cell_def df_num_imputed_expr_def assign_num_cols_def cell_simps getitem_def
      simple_imputed_frame_def select_numeric_def knn_fit_transform_def knn_impute_def
      simple_imputed_floats frame_from_array_def frame_simps reindex_for_setitem_def raised_def)

lemma missing_values_runs:
  "fst (run_all (missing_values_nb nb) Map.empty) = None"
proof -
  let ?n1 = "bindings (detect_cell Map.empty)"
  let ?n2 = "bindings (dropna_cell ?n1)"
  let ?n3 = "bindings (simple_imputation_cell ?n2)"
  have d1: "raised (detect_cell Map.empty) = None" "?n1 ''df'' = Some (Frame [0, 1, 2, 3, 4, 5, 6] missing_frame)"
    "?n1 ''pd'' = Some (Imported ''pandas'')"
    using detect_cell_df[of Map.empty] by simp_all
  have d2: "raised (dropna_cell ?n1) = None" "?n2 ''df'' = Some (Frame [0, 1, 2, 3, 4, 5, 6] missing_frame)"
    "?n2 ''pd'' = Some (Imported ''pandas'')"
    using dropna_cell_df[of ?n1 "[0, 1, 2, 3, 4, 5, 6]" missing_frame, OF d1(2)] d1(3) by simp_all
  have d3: "raised (simple_imputation_cell ?n2) = None"
    "?n3 ''df'' = Some (Frame [0, 1, 2, 3, 4, 5, 6] simple_imputed_frame)" "?n3 ''pd'' = Some (Imported ''pandas'')"
    using d2(3) simple_imputation_literal[of ?n2, OF d2(2)] by (simp_all add: raised_def bindings_def)
  have d4: "raised (knn_cell nb ?n3) = None"
    using d3(2,3) by (rule knn_literal)
  show ?thesis
    unfolding missing_values_nb_def
    by (simp only: run_all_step[of detect_cell Map.empty, OF d1(1)]
        run_all_step[of dropna_cell ?n1, OF d2(1)]
        run_all_step[of simple_imputation_cell ?n2, OF d3(1)]
        run_all_step[of "knn_cell nb" ?n3, OF d4] run_all.simps(1) fst_conv)
qed

lemma standard_cell_raised: "raised (standard_cell ns) = None"
  by (simp add: standard_cell_def cell_simps standard_fit_transform_def check_array_def
      n_features_def data_minmax_def raised_def)

lemma numeric_scaling_runs: "fst (run_all numeric_scaling_nb Map.empty) = None"
proof -
  let ?n1 = "bindings (minmax_cell Map.empty)"
  let ?n2 = "bindings (standard_cell ?n1)"
  have r1: "raised (minmax_cell Map.empty) = None" by (simp add: minmax_cell_result raised_def)
  have r2: "raised (standard_cell ?n1) = None" by (rule standard_cell_raised)
  have r3: "raised (robust_cell ?n2) = None" by (simp add: robust_cell_result raised_def)
  show ?thesis
    unfolding numeric_scaling_nb_def
    by (simp only: run_all_step[of minmax_cell Map.empty, OF r1]
        run_all_step[of standard_cell ?n1, OF r2] run_all_step[of robust_cell ?n2, OF r3]
        run_all.simps(1) fst_conv)
qed

lemma datetime_cell_result:
  "datetime_cell ns =
    (let tf = [(''timestamp'', TimeCol sample_timestamps),
               (''year'', IntCol [2025, 2025, 2025]),
               (''month'', IntCol [7, 7, 7]),
               (''day'', IntCol [12, 13, 14]),
               (''weekday'', IntCol [5, 6, 0]),
               (''hour'', IntCol [14, 9, 20]),
               (''hour_sin'', RealCol [sin (2 * pi * 14 / 24), sin (2 * pi * 9 / 24),
                                      sin (2 * pi * 20 / 24)]),
               (''hour_cos'', RealCol [cos (2 * pi * 14 / 24), cos (2 * pi * 9 / 24),
                                      cos (2 * pi * 20 / 24)])]
     in (None, [TimeFrame tf],
         ns(''pd'' \<mapsto> Imported ''pandas'', ''np'' \<mapsto> Imported ''numpy'', ''df'' \<mapsto> TimeFrame tf)))"
  by (simp add: datetime_cell_def assign_def assign_time_column_def print_expr_def dt_field_def
      cyclical_expr_def lookup_time_frame_def lookup_def bind_e_def getitem_def hour_sin_def
      hour_cos_def hour_angles_def true_divide_def sample_timestamps_def weekday_def
      days_from_civil_def Let_def)

text \<open>
  Claim C7. The repository's glue code never fails on the literal datasets: run in order
  from a fresh kernel, no cell of the four preprocessing notebooks raises (whatever
  values the KNN imputer computes); in particular \<open>mode()[0]\<close> of the \<open>Gender\<close> column
  succeeds, with \<open>Female\<close>, and the division by 24 of the cyclical encoding is defined.
\<close>

theorem notebook_glue_never_raises:
  "fst (run_all categorical_encoding_nb Map.empty) = None
   \<and> fst (run_all (missing_values_nb nb) Map.empty) = None
   \<and> fst (run_all numeric_scaling_nb Map.empty) = None
   \<and> raised (datetime_cell Map.empty) = None
   \<and> getitem missing_frame ''Gender''
       = Inr (StrCol [Some ''Male'', Some ''Female'', Some ''Female'', None,
                      Some ''Male'', Some ''Female'', None])
   \<and> first_item (mode [Some ''Male'', Some ''Female'', Some ''Female'', None,
                        Some ''Male'', Some ''Female'', None]) = Inr ''Female''
   \<and> hour_angles [14, 9, 20] = Inr [2 * pi * 14 / 24, 2 * pi * 9 / 24, 2 * pi * 20 / 24]"
proof (intro conjI)
  show "raised (datetime_cell Map.empty) = None"
    by (simp add: datetime_cell_result raised_def Let_def)
  show "hour_angles [14, 9, 20] = Inr [2 * pi * 14 / 24, 2 * pi * 9 / 24, 2 * pi * 20 / 24]"
    by (simp add: hour_angles_def true_divide_def)
qed (simp_all add: categorical_encoding_runs missing_values_runs numeric_scaling_runs
       gender_mode first_item_def getitem_def missing_frame_def)






section \<open>Properties of the stratified split\<close>

lemma iris_length: "length iris_target = 150"
  by (simp add: iris_target_def)

lemma iris_classes: "sort (remdups iris_target) = [0, 1, 2]"
  by code_simp

lemma iris_counts: "map (count_list iris_target) [0, 1, 2] = [50, 50, 50]"
  by code_simp

lemma iris_class_indices:
  "map (\<lambda>c. filter (\<lambda>i. iris_target ! i = c) [0..<150]) [0, 1, 2]
     = [[0..<50], [50..<100], [100..<150]]"
  by code_simp

lemma iris_n_i: "approximate_mode ch [50, 50, 50] 120 = [40, 40, 40]"
  by (simp add: approximate_mode_def)

lemma iris_t_i: "approximate_mode ch [10, 10, 10] 30 = [10, 10, 10]"
  by (simp add: approximate_mode_def)

lemma iris_sizes: "validate_shuffle_split 150 (1/5) = Inr (120, 30)"
  by (simp add: validate_shuffle_split_def)

lemma mset_map_nth:
  assumes "mset idx = mset [0..<length a]"
  shows "mset (map (\<lambda>k. a ! k) idx) = mset a"
proof -
  have "mset (map (\<lambda>k. a ! k) idx) = image_mset (\<lambda>k. a ! k) (mset idx)" by simp
  also have "\<dots> = image_mset (\<lambda>k. a ! k) (mset [0..<length a])" using assms by simp
  also have "\<dots> = mset (map (\<lambda>k. a ! k) [0..<length a])" by simp
  also have "\<dots> = mset a" by (simp add: map_nth)
  finally show ?thesis .
qed

lemma mset_permute: "mset order = mset [0..<length a] \<Longrightarrow> mset (permute order a) = mset a"
  unfolding permute_def by (rule mset_map_nth)

lemma mset_take_clip:
  assumes "mset idx = mset [0..<length a]"
  shows "mset (take_clip a idx) = mset a"
proof -
  have "set idx = {0..<length a}" using assms by (metis mset_eq_setD set_upt)
  then have "\<forall>j\<in>set idx. min j (length a - 1) = j" by auto
  then have "take_clip a idx = map (\<lambda>k. a ! k) idx"
    unfolding take_clip_def by (simp cong: map_cong)
  then show ?thesis using mset_map_nth[OF assms] by (simp only:)
qed

lemma class_count_mset:
  "mset xs = mset ys \<Longrightarrow> class_count y c xs = class_count y c ys"
proof -
  assume "mset xs = mset ys"
  then have "filter_mset (\<lambda>i. y ! i = c) (mset xs) = filter_mset (\<lambda>i. y ! i = c) (mset ys)"
    by simp
  then have "mset (filter (\<lambda>i. y ! i = c) xs) = mset (filter (\<lambda>i. y ! i = c) ys)"
    by simp
  then show ?thesis unfolding class_count_def by (metis size_mset)
qed

lemma class_count_append: "class_count y c (xs @ ys) = class_count y c xs + class_count y c ys"
  by (simp add: class_count_def)

lemma class_count_all:
  "(\<And>i. i \<in> set xs \<Longrightarrow> y ! i = c) \<Longrightarrow> class_count y c xs = length xs"
  by (simp add: class_count_def)

lemma class_count_none:
  "(\<And>i. i \<in> set xs \<Longrightarrow> y ! i \<noteq> c) \<Longrightarrow> class_count y c xs = 0"
  by (simp add: class_count_def)

lemma iris_label:
  "i < 50 \<Longrightarrow> iris_target ! i = 0"
  "50 \<le> i \<Longrightarrow> i < 100 \<Longrightarrow> iris_target ! i = 1"
  "100 \<le> i \<Longrightarrow> i < 150 \<Longrightarrow> iris_target ! i = 2"
  by (simp_all add: iris_target_def nth_append)

lemma split_three_classes:
  "split_classes perm [a, b, c] n t 0 =
     (take (n ! 0) (take_clip a (perm 0)) @ take (n ! 1) (take_clip b (perm 1)) @
      take (n ! 2) (take_clip c (perm 2)),
      take (t ! 0) (drop (n ! 0) (take_clip a (perm 0))) @
      take (t ! 1) (drop (n ! 1) (take_clip b (perm 1))) @
      take (t ! 2) (drop (n ! 2) (take_clip c (perm 2))))"
  by (simp add: Let_def numeral_2_eq_2)

lemma iris_split_structure:
  "stratified_shuffle_split d iris_target 120 30 =
     Inr (permute (train_order d)
            (take 40 (take_clip [0..<50] (class_perm d 0)) @
             take 40 (take_clip [50..<100] (class_perm d 1)) @
             take 40 (take_clip [100..<150] (class_perm d 2))),
          permute (test_order d)
            (take 10 (drop 40 (take_clip [0..<50] (class_perm d 0))) @
             take 10 (drop 40 (take_clip [50..<100] (class_perm d 1))) @
             take 10 (drop 40 (take_clip [100..<150] (class_perm d 2)))))"
proof -
  have s: "split_classes (class_perm d) [[0..<50], [50..<100], [100..<150]]
             [40, 40, 40] [10, 10, 10] 0 =
     (take 40 (take_clip [0..<50] (class_perm d 0)) @
      take 40 (take_clip [50..<100] (class_perm d 1)) @
      take 40 (take_clip [100..<150] (class_perm d 2)),
      take 10 (drop 40 (take_clip [0..<50] (class_perm d 0))) @
      take 10 (drop 40 (take_clip [50..<100] (class_perm d 1))) @
      take 10 (drop 40 (take_clip [100..<150] (class_perm d 2))))"
    unfolding split_three_classes by (simp del: upt_rec_numeral)
  have r: "map (\<lambda>(c, n). c - n) (zip [50, 50, 50] [40, 40, 40]) = [10, 10, 10::nat]" by simp
  have chk: "\<not> list_ex (\<lambda>c. c < 2) [50, 50, 50::nat]"
    "\<not> ((120::nat) < length [0, 1, 2::nat] \<or> (30::nat) < length [0, 1, 2::nat])" by simp_all
  show ?thesis
    unfolding stratified_shuffle_split_def Let_def iris_classes iris_length iris_counts
      iris_class_indices iris_n_i r iris_t_i s
    using chk by (simp only: if_False prod.case)
qed

lemma class_piece:
  assumes p: "mset p = mset [lo..<hi]" and lab: "\<And>i. lo \<le> i \<Longrightarrow> i < hi \<Longrightarrow> y ! i = k"
    and len: "length p = L"
  shows "class_count y c (take n p) = (if c = k then min n L else 0)"
    and "class_count y c (drop n p) = (if c = k then L - n else 0)"
proof -
  have "set p = {lo..<hi}" using p by (metis mset_eq_setD set_upt)
  then have l: "\<And>i. i \<in> set p \<Longrightarrow> y ! i = k" using lab by auto
  have t: "\<And>i. i \<in> set (take n p) \<Longrightarrow> y ! i = k" using l by (meson in_set_takeD)
  have d: "\<And>i. i \<in> set (drop n p) \<Longrightarrow> y ! i = k" using l by (meson in_set_dropD)
  show "class_count y c (take n p) = (if c = k then min n L else 0)"
    using t len by (auto simp: class_count_def filter_empty_conv min_def)
  show "class_count y c (drop n p) = (if c = k then L - n else 0)"
    using d len by (auto simp: class_count_def filter_empty_conv)
qed

lemma iris_split_properties:
  assumes v: "valid_draws d [50, 50, 50] 120 30"
  shows "\<exists>train test. train_test_split d iris_target (1/5) = Inr (train, test) \<and>
           set train \<inter> set test = {} \<and> set train \<union> set test = {0..<150} \<and>
           distinct train \<and> distinct test \<and> length train = 120 \<and> length test = 30 \<and>
           list_all (\<lambda>c. class_count iris_target c test = 10 \<and>
                          class_count iris_target c train = 40) [0, 1, 2]"
proof -
  let ?p0 = "take_clip [0..<50] (class_perm d 0)"
  let ?p1 = "take_clip [50..<100] (class_perm d 1)"
  let ?p2 = "take_clip [100..<150] (class_perm d 2)"
  let ?tr = "take 40 ?p0 @ take 40 ?p1 @ take 40 ?p2"
  let ?te = "take 10 (drop 40 ?p0) @ take 10 (drop 40 ?p1) @ take 10 (drop 40 ?p2)"
  let ?train = "permute (train_order d) ?tr"
  let ?test = "permute (test_order d) ?te"
  from v have la: "\<forall>k\<in>set [0..<length [50, 50, 50::nat]].
                     mset (class_perm d k) = mset [0..<[50, 50, 50::nat] ! k]"
    and ord: "mset (train_order d) = mset [0..<120]" "mset (test_order d) = mset [0..<30]"
    unfolding valid_draws_def list_all_iff by blast+
  have n: "[50, 50, 50::nat] ! 0 = 50" "[50, 50, 50::nat] ! 1 = 50" "[50, 50, 50::nat] ! 2 = 50"
    by simp_all
  have "mset (class_perm d 0) = mset [0..<[50, 50, 50::nat] ! 0]" using la by (rule bspec) simp
  then have perm0: "mset (class_perm d 0) = mset [0..<50]" by (simp only: n)
  have "mset (class_perm d 1) = mset [0..<[50, 50, 50::nat] ! 1]" using la by (rule bspec) simp
  then have perm1: "mset (class_perm d 1) = mset [0..<50]" by (simp only: n)
  have "mset (class_perm d 2) = mset [0..<[50, 50, 50::nat] ! 2]" using la by (rule bspec) simp
  then have perm2: "mset (class_perm d 2) = mset [0..<50]" by (simp only: n)
  have lu: "length [0..<50::nat] = 50" "length [50..<100::nat] = 50" "length [100..<150::nat] = 50"
    by simp_all
  have m0: "mset ?p0 = mset [0..<50]" by (rule mset_take_clip) (simp only: lu perm0)
  have m1: "mset ?p1 = mset [50..<100]" by (rule mset_take_clip) (simp only: lu perm1)
  have m2: "mset ?p2 = mset [100..<150]" by (rule mset_take_clip) (simp only: lu perm2)
  have l0: "length ?p0 = 50" using mset_eq_length[OF m0] by (simp only: lu)
  have l1: "length ?p1 = 50" using mset_eq_length[OF m1] by (simp only: lu)
  have l2: "length ?p2 = 50" using mset_eq_length[OF m2] by (simp only: lu)
  have te: "?te = drop 40 ?p0 @ drop 40 ?p1 @ drop 40 ?p2" using l0 l1 l2 by simp
  have ltr: "length ?tr = 120" using l0 l1 l2 by simp
  have lte: "length ?te = 30" using l0 l1 l2 by simp
  have split: "\<And>p::nat list. mset (take 40 p) + mset (drop 40 p) = mset p"
    by (metis append_take_drop_id mset_append)
  have "mset ?tr + mset ?te = (mset (take 40 ?p0) + mset (drop 40 ?p0))
          + (mset (take 40 ?p1) + mset (drop 40 ?p1)) + (mset (take 40 ?p2) + mset (drop 40 ?p2))"
    unfolding te by (simp add: ac_simps)
  also have "\<dots> = mset [0..<50] + mset [50..<100] + mset [100..<150]"
    unfolding split m0 m1 m2 ..
  also have "\<dots> = mset ([0..<50] @ [50..<100] @ [100..<150])"
    by (simp only: mset_append add.assoc)
  also have "[0..<50] @ [50..<100] @ [100..<150] = [0..<150::nat]"
    using upt_add_eq_append[of 0 50 100] upt_add_eq_append[of 50 100 50] 
    by (simp del: upt_rec_numeral)
  finally have all: "mset ?tr + mset ?te = mset [0..<150]" .
  have mtr: "mset ?train = mset ?tr" by (rule mset_permute) (simp only: ltr ord)
  have mte: "mset ?test = mset ?te" by (rule mset_permute) (simp only: lte ord)
  have "mset (?train @ ?test) = mset [0..<150]" using all mtr mte by simp
  then have dist: "distinct (?train @ ?test)" and st: "set (?train @ ?test) = {0..<150}"
    by (metis distinct_upt mset_eq_imp_distinct_iff, metis mset_eq_setD set_upt)
  have len: "length ?train = 120" "length ?test = 30"
    using mtr mte ltr lte by (metis size_mset)+
  have t0: "class_count iris_target c (take 40 ?p0) = (if c = 0 then min 40 50 else 0)"
    and d0: "class_count iris_target c (drop 40 ?p0) = (if c = 0 then 50 - 40 else 0)" for c
    by (rule class_piece[OF m0 _ l0], simp add: iris_label(1))+
  have t1: "class_count iris_target c (take 40 ?p1) = (if c = 1 then min 40 50 else 0)"
    and d1: "class_count iris_target c (drop 40 ?p1) = (if c = 1 then 50 - 40 else 0)" for c
    by (rule class_piece[OF m1 _ l1], rule iris_label(2), assumption+)+
  have t2: "class_count iris_target c (take 40 ?p2) = (if c = 2 then min 40 50 else 0)"
    and d2: "class_count iris_target c (drop 40 ?p2) = (if c = 2 then 50 - 40 else 0)" for c
    by (rule class_piece[OF m2 _ l2], rule iris_label(3), assumption+)+
  have cc_te: "class_count iris_target c ?te = 10" if "c \<in> {0, 1, 2}" for c
    unfolding te class_count_append d0 d1 d2 using that by auto
  have cc_tr: "class_count iris_target c ?tr = 40" if "c \<in> {0, 1, 2}" for c
    unfolding class_count_append t0 t1 t2 using that by auto
  have cm: "class_count iris_target c ?train = class_count iris_target c ?tr"
    "class_count iris_target c ?test = class_count iris_target c ?te" for c
    using class_count_mset[OF mtr] class_count_mset[OF mte] by blast+
  have cc: "list_all (\<lambda>c. class_count iris_target c ?test = 10 \<and>
                          class_count iris_target c ?train = 40) [0, 1, 2]"
    unfolding cm using cc_te[of 0] cc_te[of 1] cc_te[of 2] cc_tr[of 0] cc_tr[of 1] cc_tr[of 2]
    by simp
  have res: "train_test_split d iris_target (1/5) = Inr (?train, ?test)"
    by (simp only: train_test_split_def iris_length iris_sizes bind_e_def sum.case prod.case
        iris_split_structure)
  have d1: "distinct ?train \<and> distinct ?test \<and> set ?train \<inter> set ?test = {}"
    using dist by (simp only: distinct_append)
  have s1: "set ?train \<union> set ?test = {0..<150}" using st by (simp only: set_append)
  from d1 s1 len cc res show ?thesis by blast
qed

lemma identity_draws_valid: "valid_draws identity_draws [50, 50, 50] 120 30"
  by (simp add: valid_draws_def identity_draws_def del: upt_rec_numeral mset_upt)

text \<open>
  Claim C5. The stratified split of the iris dataset (150 samples, 50 per class) with
  \<open>test_size=0.2\<close> partitions the samples and preserves the class proportions: whatever
  permutations the seeded generator draws, the training and test index lists are
  disjoint, without repetition, and together hold every index from 0 to 149; the test
  set has 30 samples and the training set 120; each class has 10 samples in the test
  set and 40 in the training set.
\<close>

theorem stratified_split_preserves_proportions:
  "length iris_target = 150
   \<and> map (count_list iris_target) [0, 1, 2] = [50, 50, 50]
   \<and> (valid_draws d [50, 50, 50] 120 30 \<longrightarrow>
        (\<exists>train test. train_test_split d iris_target (1/5) = Inr (train, test) \<and>
           set train \<inter> set test = {} \<and> set train \<union> set test = {0..<150} \<and>
           distinct train \<and> distinct test \<and> length train = 120 \<and> length test = 30 \<and>
           list_all (\<lambda>c. class_count iris_target c test = 10 \<and>
                          class_count iris_target c train = 40) [0, 1, 2]))"
  using iris_length iris_counts iris_split_properties by blast

text \<open>The theorem at the draws that leave every order as it is.\<close>

theorem stratified_split_preserves_proportions_witness:
  "valid_draws identity_draws [50, 50, 50] 120 30
   \<and> (\<exists>train test. train_test_split identity_draws iris_target (1/5) = Inr (train, test) \<and>
           set train \<inter> set test = {} \<and> set train \<union> set test = {0..<150} \<and>
           distinct train \<and> distinct test \<and> length train = 120 \<and> length test = 30 \<and>
           list_all (\<lambda>c. class_count iris_target c test = 10 \<and>
                          class_count iris_target c train = 40) [0, 1, 2])"
  using stratified_split_preserves_proportions[of identity_draws] identity_draws_valid by blast

section \<open>How the operations are carried out\<close>

lemma single_call_operations:
  "single_library_call (scaler_src ''MinMaxScaler'')"
  "single_library_call (scaler_src ''StandardScaler'')"
  "single_library_call (scaler_src ''RobustScaler'')"
  "single_library_call label_src"
  "single_library_call one_hot_src"
  "single_library_call ordinal_src"
  "single_library_call split_src"
  "single_library_call grid_search_src"
  by code_simp+

lemma single_calls_made:
  "map transform_calls
     [scaler_src ''MinMaxScaler'', scaler_src ''StandardScaler'', scaler_src ''RobustScaler'',
      label_src, one_hot_src, ordinal_src, split_src, grid_search_src]
   = [[''fit_transform''], [''fit_transform''], [''fit_transform''], [''fit_transform''],
      [''get_dummies''], [''fit_transform''], [''train_test_split''], [''fit'']]"
  by code_simp

lemma composed_operations:
  "transform_calls target_src = [''groupby'', ''mean'', ''map'']"
  "transform_calls frequency_src = [''value_counts'', ''map'']"
  "transform_calls simple_imputation_src = [''mean'', ''fillna'', ''mode'', ''fillna'']"
  "transform_calls knn_imputation_src = [''select_dtypes'', ''fit_transform'']"
  "transform_calls datetime_extraction_src = []"
  "transform_calls cyclical_src = [''sin'', ''cos'']"
  "own_arithmetic cyclical_src = [''*'', ''*'', ''/'', ''*'', ''*'', ''/'']"
  by code_simp+

lemma scaler_cells_print_routine:
  "map Inr (printed (minmax_cell ns)) = [fit_transform (Estimator MinMaxScaler) (IntArray data_minmax)]"
  "map Inr (printed (standard_cell ns)) = [fit_transform (Estimator StandardScaler) (IntArray data_minmax)]"
  "map Inr (printed (robust_cell ns)) = [fit_transform (Estimator RobustScaler) (IntArray data_robust)]"
proof -
  show "map Inr (printed (minmax_cell ns)) = [fit_transform (Estimator MinMaxScaler) (IntArray data_minmax)]"
    by (simp add: minmax_cell_result printed_def fit_transform_def bind_e_def minmax_data_value)
  show "map Inr (printed (robust_cell ns)) = [fit_transform (Estimator RobustScaler) (IntArray data_robust)]"
    by (simp add: robust_cell_result printed_def fit_transform_def bind_e_def robust_data_value)
  show "map Inr (printed (standard_cell ns)) = [fit_transform (Estimator StandardScaler) (IntArray data_minmax)]"
    by (simp add: standard_cell_def cell_simps standard_fit_transform_def check_array_def
        n_features_def data_minmax_def printed_def)
qed

lemma encoder_cells_print_routine:
  "map Inr (printed (label_cell ns))
     = [fit_transform (Estimator LabelEncoder) (StrList [''red'', ''green'', ''blue'', ''green'', ''red''])]"
  "map Inr (printed (ordinal_cell ns))
     = [fit_transform (Estimator (OrdinalEncoder [[''low'', ''medium'', ''high'']]))
          (StrRows [[''low''], [''medium''], [''high''], [''medium''], [''low'']])]"
  "printed (one_hot_cell ns) = [Frame [0, 1, 2, 3, 4] (get_dummies color_column)]"
  by (simp_all add: label_cell_result ordinal_cell_result one_hot_cell_result printed_def
      fit_transform_def bind_e_def label_fit_transform_def ordinal_fit_transform_def ordinal_row_def)

text \<open>
  Claim C1 (as amended). Eight of the operations are carried out by a single transforming
  call into the external library, with no arithmetic written by the notebook: min-max
  scaling, standardization, robust scaling, label encoding and ordinal encoding
  (\<open>fit_transform\<close>), one-hot encoding (\<open>get_dummies\<close>), the stratified split
  (\<open>train_test_split\<close>) and the grid search (\<open>fit\<close>); what the three scaling cells and the
  label and ordinal cells print is the value of that one routine on the cell's literal
  input, and the one-hot cell prints the table of \<open>get_dummies\<close> on its column. The
  other operations are compositions that the notebook writes itself: target encoding
  calls \<open>groupby\<close>, \<open>mean\<close> and \<open>map\<close>, frequency encoding \<open>value_counts\<close> and \<open>map\<close>, simple
  imputation \<open>mean\<close>, \<open>fillna\<close>, \<open>mode\<close> and \<open>fillna\<close>, KNN imputation \<open>select_dtypes\<close> and
  \<open>fit_transform\<close>, the date-time extraction reads attributes and calls nothing, and the
  cyclical encoding calls \<open>sin\<close> and \<open>cos\<close> on arithmetic of its own.
\<close>

theorem operations_call_structure:
  "single_library_call (scaler_src ''MinMaxScaler'')
   \<and> single_library_call (scaler_src ''StandardScaler'')
   \<and> single_library_call (scaler_src ''RobustScaler'')
   \<and> single_library_call label_src
   \<and> single_library_call one_hot_src
   \<and> single_library_call ordinal_src
   \<and> single_library_call split_src
   \<and> single_library_call grid_search_src
   \<and> map transform_calls
        [scaler_src ''MinMaxScaler'', scaler_src ''StandardScaler'', scaler_src ''RobustScaler'',
         label_src, one_hot_src, ordinal_src, split_src, grid_search_src]
      = [[''fit_transform''], [''fit_transform''], [''fit_transform''], [''fit_transform''],
         [''get_dummies''], [''fit_transform''], [''train_test_split''], [''fit'']]
   \<and> map Inr (printed (minmax_cell ns))
      = [fit_transform (Estimator MinMaxScaler) (IntArray data_minmax)]
   \<and> map Inr (printed (standard_cell ns))
      = [fit_transform (Estimator StandardScaler) (IntArray data_minmax)]
   \<and> map Inr (printed (robust_cell ns))
      = [fit_transform (Estimator RobustScaler) (IntArray data_robust)]
   \<and> map Inr (printed (label_cell ns))
      = [fit_transform (Estimator LabelEncoder)
           (StrList [''red'', ''green'', ''blue'', ''green'', ''red''])]
   \<and> map Inr (printed (ordinal_cell ns))
      = [fit_transform (Estimator (OrdinalEncoder [[''low'', ''medium'', ''high'']]))
           (StrRows [[''low''], [''medium''], [''high''], [''medium''], [''low'']])]
   \<and> printed (one_hot_cell ns) = [Frame [0, 1, 2, 3, 4] (get_dummies color_column)]
   \<and> transform_calls target_src = [''groupby'', ''mean'', ''map'']
   \<and> transform_calls frequency_src = [''value_counts'', ''map'']
   \<and> transform_calls simple_imputation_src = [''mean'', ''fillna'', ''mode'', ''fillna'']
   \<and> transform_calls knn_imputation_src = [''select_dtypes'', ''fit_transform'']
   \<and> transform_calls datetime_extraction_src = []
   \<and> transform_calls cyclical_src = [''sin'', ''cos'']
   \<and> own_arithmetic cyclical_src = [''*'', ''*'', ''/'', ''*'', ''*'', ''/'']"
  using single_call_operations single_calls_made composed_operations
    scaler_cells_print_routine[of ns] encoder_cells_print_routine[of ns]
  by (intro conjI)

text \<open>
  The claim as stated, a single call for every operation, fails: target encoding makes
  three calls, and so the list of operations is not one of single calls. The same holds
  of frequency encoding, the two imputations and the cyclical encoding, and the
  date-time extraction makes no call at all.
\<close>

theorem single_call_counterexample:
  "transform_calls target_src = [''groupby'', ''mean'', ''map'']
   \<and> \<not> single_library_call target_src
   \<and> \<not> single_library_call frequency_src
   \<and> \<not> single_library_call simple_imputation_src
   \<and> \<not> single_library_call knn_imputation_src
   \<and> \<not> single_library_call datetime_extraction_src
   \<and> \<not> single_library_call cyclical_src
   \<and> \<not> list_all single_library_call operations"
  by code_simp

end
